theory Spec2Isabelle
  imports Complex_Main "HOL-Library.Multiset"
begin

section \<open>Data model of the Best Buy provider\<close>

text \<open>
  Prices are Python floats. Finite floats are modelled as rationals (every finite float
  is one); the three special values keep Python's comparison behaviour: every ordering
  or equality test against NaN is false.
\<close>

datatype pyfloat = Num rat | PosInf | NegInf | NaN

fun fgt :: "pyfloat \<Rightarrow> rat \<Rightarrow> bool" where
  "fgt (Num r) c = (c < r)"
| "fgt PosInf c = True"
| "fgt NegInf c = False"
| "fgt NaN c = False"

fun flt :: "pyfloat \<Rightarrow> rat \<Rightarrow> bool" where
  "flt (Num r) c = (r < c)"
| "flt PosInf c = False"
| "flt NegInf c = True"
| "flt NaN c = False"

fun feq :: "pyfloat \<Rightarrow> rat \<Rightarrow> bool" where
  "feq (Num r) c = (r = c)"
| "feq PosInf c = False"
| "feq NegInf c = False"
| "feq NaN c = False"

text \<open>Python's \<open>a != b\<close> on two floats: NaN differs from everything, itself included.\<close>

fun fne :: "pyfloat \<Rightarrow> pyfloat \<Rightarrow> bool" where
  "fne NaN b = True"
| "fne a NaN = True"
| "fne a b = (a \<noteq> b)"

text \<open>The dictionary built by \<open>fetch_product_data\<close>, one field per key.\<close>

record product =
  sku :: string
  price :: pyfloat
  brand :: string
  quantity :: int
  availability :: string
  handlingTime :: int

text \<open>The provider's configuration, as read by \<open>__init__\<close>.\<close>

record config =
  stock_level :: int
  handling_time_omd :: int
  provider_specific_handling_time :: int
  update_flag_value :: int

section \<open>The single lookup: \<open>fetch_product_data\<close>\<close>

text \<open>
  The \<open>data\<close> object of the lookup API, read through \<open>.get\<close>: a field is \<open>None\<close> when the
  key is absent (for the brand also when it is null or empty). The API may report a
  quantity; the code has no read of it.
\<close>

record api_data =
  availability_field :: "string option"
  price_field :: "pyfloat option"
  brand_field :: "string option"
  quantity_field :: "int option"

text \<open>
  What one \<open>requests.get\<close> followed by \<open>response.json()\<close> can do: raise a timeout, raise
  anything else inside the \<open>try\<close> block (connection error, a body that is not JSON, a field
  of the wrong type), or give a status code with, for the body, the truthiness of
  \<open>success\<close> and the \<open>data\<close> object when it is truthy.
\<close>

datatype http_outcome =
    Timeout
  | RequestFailed string
  | Response int bool "api_data option"

text \<open>\<open>str.lower()\<close>, on the ASCII letters that the availability strings are made of.\<close>

definition upper_lower :: "(char \<times> char) list" where
  "upper_lower = zip ''ABCDEFGHIJKLMNOPQRSTUVWXYZ'' ''abcdefghijklmnopqrstuvwxyz''"

definition lower_char :: "char \<Rightarrow> char" where
  "lower_char c = (case map_of upper_lower c of Some d \<Rightarrow> d | None \<Rightarrow> c)"

definition lower :: "string \<Rightarrow> string" where
  "lower s = map lower_char s"

definition error_fallback :: "config \<Rightarrow> string \<Rightarrow> product" where
  "error_fallback cfg s =
     \<lparr>sku = s, price = Num 0, brand = '''', quantity = 0, availability = ''outOfStock'',
      handlingTime = handling_time_omd cfg + provider_specific_handling_time cfg\<rparr>"

definition transform :: "config \<Rightarrow> string \<Rightarrow> api_data \<Rightarrow> product" where
  "transform cfg s d =
     (let is_in_stock =
            (lower (case availability_field d of None \<Rightarrow> '''' | Some a \<Rightarrow> a) = ''instock'');
          p = (case price_field d of None \<Rightarrow> Num 0 | Some x \<Rightarrow> x);
          b = (case brand_field d of None \<Rightarrow> '''' | Some x \<Rightarrow> x)
      in \<lparr>sku = s, price = p, brand = b,
          quantity = (if is_in_stock then stock_level cfg else 0),
          availability = (if is_in_stock then ''inStock'' else ''outOfStock''),
          handlingTime = handling_time_omd cfg + provider_specific_handling_time cfg\<rparr>)"

fun fetch_product_data :: "config \<Rightarrow> string \<Rightarrow> http_outcome \<Rightarrow> product" where
  "fetch_product_data cfg s Timeout = error_fallback cfg s"
| "fetch_product_data cfg s (RequestFailed msg) = error_fallback cfg s"
| "fetch_product_data cfg s (Response status success body) =
     (if status = 200 then
        (case body of
           Some d \<Rightarrow> (if success then transform cfg s d else error_fallback cfg s)
         | None \<Rightarrow> error_fallback cfg s)
      else error_fallback cfg s)"

section \<open>The response validator: \<open>analyze_response\<close>\<close>

text \<open>The reason is a log text with the price formatted into it; it is kept structured.\<close>

datatype reason =
    NoReason
  | OutOfStockButPrice pyfloat
  | OutOfStockZero
  | LowPrice pyfloat
  | HighPrice pyfloat

record analysis =
  is_valid :: bool
  reason :: reason
  severity :: string

definition analyze_response :: "product \<Rightarrow> string \<Rightarrow> int \<Rightarrow> analysis" where
  "analyze_response product_data s attempt =
     (let a = \<lparr>is_valid = True, reason = NoReason, severity = ''low''\<rparr>;
          p = price product_data;
          av = availability product_data
      in if av = ''outOfStock'' \<and> fgt p 0 then
           a\<lparr>is_valid := False, reason := OutOfStockButPrice p, severity := ''high''\<rparr>
         else if feq p 0 \<and> av = ''outOfStock'' then
           a\<lparr>is_valid := False, reason := OutOfStockZero, severity := ''medium''\<rparr>
         else if fgt p 0 \<and> flt p 5 then
           a\<lparr>is_valid := False, reason := LowPrice p, severity := ''medium''\<rparr>
         else if fgt p 10000 then
           a\<lparr>is_valid := False, reason := HighPrice p, severity := ''low''\<rparr>
         else a)"

section \<open>The retrying fetcher: \<open>fetch_product_data_with_retry\<close>\<close>

definition is_better_response :: "product \<Rightarrow> product option \<Rightarrow> bool" where
  "is_better_response current previous =
     (case previous of
        None \<Rightarrow> True
      | Some prev \<Rightarrow>
          if fgt (price current) 0 \<and> feq (price prev) 0 then True
          else if availability current = ''inStock'' \<and> availability prev = ''outOfStock''
          then True
          else False)"

text \<open>Python's \<open>int()\<close> on a number truncates toward zero.\<close>

definition py_int :: "rat \<Rightarrow> int" where
  "py_int r = (if 0 \<le> r then \<lfloor>r\<rfloor> else \<lceil>r\<rceil>)"

definition severity_multipliers :: "string \<Rightarrow> rat option" where
  "severity_multipliers = map_of [(''low'', 1), (''medium'', 3 / 2), (''high'', 2)]"

definition calculate_retry_delay :: "int \<Rightarrow> string \<Rightarrow> int" where
  "calculate_retry_delay attempt sev =
     (let base_delay = 1000;
          multiplier = attempt
      in py_int (of_int (base_delay * multiplier) *
                 (case severity_multipliers sev of Some f \<Rightarrow> f | None \<Rightarrow> 1)))"

datatype py_error = UnboundLocalError | ValueError | ZeroDivisionError | RaisedException string

text \<open>
  One pass through the loop body either returns an answer or sleeps and goes on. Both
  carry the value of \<open>last_valid_response\<close> at the end of the pass.
\<close>

datatype step = Return product "product option" | Retry int "product option"

text \<open>
  The \<open>try\<close> block of the loop body. Every call in it is total (the lookup catches its own
  exceptions), so the block always completes: its value is never \<open>Inl\<close>.
\<close>

definition try_block ::
  "config \<Rightarrow> string \<Rightarrow> http_outcome \<Rightarrow> int \<Rightarrow> int \<Rightarrow> product option \<Rightarrow> py_error + step" where
  "try_block cfg s out max_retries attempt last_valid_response =
     (let product_data = fetch_product_data cfg s out;
          a = analyze_response product_data s attempt
      in if is_valid a then Inr (Return product_data last_valid_response)
         else
           let last' = (if is_better_response product_data last_valid_response
                        then Some product_data else last_valid_response)
           in if attempt < max_retries
              then Inr (Retry (calculate_retry_delay attempt (severity a)) last')
              else Inr (Return (case last' of Some b \<Rightarrow> b | None \<Rightarrow> product_data) last'))"

text \<open>The \<open>except Exception\<close> handler of the loop body.\<close>

definition except_handler ::
  "config \<Rightarrow> string \<Rightarrow> int \<Rightarrow> int \<Rightarrow> product option \<Rightarrow> step" where
  "except_handler cfg s max_retries attempt last_valid_response =
     (if attempt < max_retries
      then Retry (calculate_retry_delay attempt ''high'') last_valid_response
      else Return (error_fallback cfg s) last_valid_response)"

definition attempt_step ::
  "config \<Rightarrow> string \<Rightarrow> http_outcome \<Rightarrow> int \<Rightarrow> int \<Rightarrow> product option \<Rightarrow> step" where
  "attempt_step cfg s out max_retries attempt last_valid_response =
     (case try_block cfg s out max_retries attempt last_valid_response of
        Inr st \<Rightarrow> st
      | Inl e \<Rightarrow> except_handler cfg s max_retries attempt last_valid_response)"

text \<open>
  What one call does: the answer it returns, the delays it slept (in milliseconds, in
  order) and the value of \<open>last_valid_response\<close> after each attempt.
\<close>

record run =
  returned :: product
  sleeps :: "int list"
  candidates :: "product option list"

lemma attempt_step_Retry:
  "attempt_step cfg s out m attempt lvr = Retry d kept \<Longrightarrow> attempt < m"
  by (auto simp: attempt_step_def try_block_def except_handler_def Let_def split: if_splits)

text \<open>
  The loop \<open>for attempt in range(1, max_retries + 1)\<close>, from a given attempt on. The
  remote service is the function giving the outcome of the lookup of each attempt.
\<close>

function retry_loop ::
  "config \<Rightarrow> string \<Rightarrow> (int \<Rightarrow> http_outcome) \<Rightarrow> int \<Rightarrow> int \<Rightarrow> product option \<Rightarrow> run" where
  "retry_loop cfg s api max_retries attempt lvr =
     (case attempt_step cfg s (api attempt) max_retries attempt lvr of
        Return p kept \<Rightarrow> \<lparr>returned = p, sleeps = [], candidates = [kept]\<rparr>
      | Retry d kept \<Rightarrow>
          (let r = retry_loop cfg s api max_retries (attempt + 1) kept
           in r\<lparr>sleeps := d # sleeps r, candidates := kept # candidates r\<rparr>))"
  by pat_completeness auto
termination
  by (relation "measure (\<lambda>(cfg, s, api, m, attempt, lvr). nat (m - attempt))")
     (auto dest: attempt_step_Retry)

declare retry_loop.simps [simp del]

text \<open>
  With \<open>max_retries < 1\<close> the loop body never runs and the final
  \<open>return last_valid_response or product_data\<close> reads the unbound \<open>product_data\<close>.
  Otherwise the pass of the last attempt returns in each of its branches.
\<close>

definition fetch_product_data_with_retry ::
  "config \<Rightarrow> string \<Rightarrow> (int \<Rightarrow> http_outcome) \<Rightarrow> int \<Rightarrow> py_error + run" where
  "fetch_product_data_with_retry cfg s api max_retries =
     (if max_retries < 1 then Inl UnboundLocalError
      else Inr (retry_loop cfg s api max_retries 1 None))"

section \<open>The reconciliation writer: \<open>update_product_in_db\<close>\<close>

text \<open>
  A row of the table \<open>produtos\<close>, with the columns the writer reads and writes. A column
  is \<open>None\<close> when it is NULL. The timestamp is a clock reading.
\<close>

record db_row =
  supplier_price :: "pyfloat option"
  db_quantity :: "int option"
  db_availability :: "string option"
  db_brand :: "string option"
  lead_time :: "int option"
  lead_time_2 :: "int option"
  handling_time_amz :: "int option"
  last_update :: nat
  atualizado :: int

type_synonym database = "string \<rightharpoonup> db_row"

text \<open>
  What the database does during one call: each statement may raise (the message of the
  exception), other writers may change the table between the lookup and the write, and
  the clock gives \<open>datetime.now()\<close>.
\<close>

record db_env =
  cursor_fault :: "string option"
  select_fault :: "string option"
  touch_fault :: "string option"
  write_fault :: "string option"
  drift :: "database \<Rightarrow> database"
  now :: nat

datatype write_result = Updated | No_update | Failed string

definition has_changes :: "config \<Rightarrow> db_row \<Rightarrow> product \<Rightarrow> bool" where
  "has_changes cfg current_data product_data =
     (fne (case supplier_price current_data of None \<Rightarrow> Num 0 | Some x \<Rightarrow> x) (price product_data) \<or>
      (case db_quantity current_data of None \<Rightarrow> 0 | Some x \<Rightarrow> x) \<noteq> quantity product_data \<or>
      (case db_availability current_data of None \<Rightarrow> '''' | Some x \<Rightarrow> x) \<noteq> availability product_data \<or>
      (case db_brand current_data of None \<Rightarrow> '''' | Some x \<Rightarrow> x) \<noteq> brand product_data \<or>
      (case lead_time current_data of None \<Rightarrow> 0 | Some x \<Rightarrow> x) \<noteq> handling_time_omd cfg \<or>
      (case lead_time_2 current_data of None \<Rightarrow> 0 | Some x \<Rightarrow> x) \<noteq> provider_specific_handling_time cfg \<or>
      (case handling_time_amz current_data of None \<Rightarrow> 0 | Some x \<Rightarrow> x) \<noteq> handlingTime product_data)"

text \<open>\<open>UPDATE produtos SET last_update = now WHERE sku = s\<close>\<close>

definition touch_row :: "nat \<Rightarrow> string \<Rightarrow> database \<Rightarrow> database" where
  "touch_row t s db = (case db s of None \<Rightarrow> db | Some r \<Rightarrow> db(s \<mapsto> r\<lparr>last_update := t\<rparr>))"

text \<open>The full \<open>UPDATE\<close>, with the number of rows it affected.\<close>

definition write_row :: "config \<Rightarrow> nat \<Rightarrow> product \<Rightarrow> database \<Rightarrow> database \<times> nat" where
  "write_row cfg t product_data db =
     (case db (sku product_data) of
        None \<Rightarrow> (db, 0)
      | Some r \<Rightarrow>
          (db(sku product_data \<mapsto>
              r\<lparr>supplier_price := Some (price product_data),
                db_quantity := Some (quantity product_data),
                db_availability := Some (availability product_data),
                db_brand := Some (brand product_data),
                lead_time := Some (handling_time_omd cfg),
                lead_time_2 := Some (provider_specific_handling_time cfg),
                handling_time_amz := Some (handlingTime product_data),
                last_update := t,
                atualizado := update_flag_value cfg\<rparr>), 1))"

text \<open>
  The \<open>try\<close> block: \<open>Inl\<close> carries the message of an exception raised by a statement,
  together with the table as it is then.
\<close>

definition update_try_block ::
  "config \<Rightarrow> db_env \<Rightarrow> database \<Rightarrow> product \<Rightarrow> (string + write_result) \<times> database" where
  "update_try_block cfg env db product_data =
     (case cursor_fault env of Some e \<Rightarrow> (Inl e, db) | None \<Rightarrow>
      case select_fault env of Some e \<Rightarrow> (Inl e, db) | None \<Rightarrow>
      case db (sku product_data) of
        None \<Rightarrow> (Inr (Failed ''Product not found''), db)
      | Some current_data \<Rightarrow>
          let db1 = drift env db in
          if \<not> has_changes cfg current_data product_data then
            (case touch_fault env of
               Some e \<Rightarrow> (Inl e, db1)
             | None \<Rightarrow> (Inr No_update, touch_row (now env) (sku product_data) db1))
          else
            (case write_fault env of
               Some e \<Rightarrow> (Inl e, db1)
             | None \<Rightarrow>
                 let (db2, rowcount) = write_row cfg (now env) product_data db1
                 in if rowcount = 0 then (Inr (Failed ''No rows updated''), db2)
                    else (Inr Updated, db2)))"

definition update_product_in_db ::
  "config \<Rightarrow> db_env \<Rightarrow> database \<Rightarrow> product \<Rightarrow> write_result \<times> database" where
  "update_product_in_db cfg env db product_data =
     (case update_try_block cfg env db product_data of
        (Inr res, db') \<Rightarrow> (res, db')
      | (Inl e, db') \<Rightarrow> (Failed e, db'))"

section \<open>The batch runner: \<open>process_products\<close>\<close>

text \<open>
  What surrounds one run, for each position of the input list: the behaviour of the
  remote service at each attempt of its lookup, the moment at which its lookup
  completes, and the behaviour of the database during its write.
\<close>

record world =
  remote :: "nat \<Rightarrow> int \<Rightarrow> http_outcome"
  finished_at :: "nat \<Rightarrow> nat"
  db_envs :: "nat \<Rightarrow> db_env"

text \<open>An identifier with its position in the input list.\<close>

type_synonym item = "nat \<times> string"

text \<open>\<open>concurrent.futures.as_completed\<close>: the futures of a window in their order of completion.\<close>

definition as_completed :: "world \<Rightarrow> item list \<Rightarrow> item list" where
  "as_completed w window = sort_key (\<lambda>it. finished_at w (fst it)) window"

text \<open>\<open>future.result()\<close> on each future in turn: the first exception leaves the loop.\<close>

fun collect :: "(py_error + 'a) list \<Rightarrow> py_error + 'a list" where
  "collect [] = Inr []"
| "collect (Inl e # rs) = Inl e"
| "collect (Inr x # rs) = (case collect rs of Inl e \<Rightarrow> Inl e | Inr xs \<Rightarrow> Inr (x # xs))"

definition fetch_window :: "config \<Rightarrow> world \<Rightarrow> item list \<Rightarrow> py_error + (nat \<times> product) list" where
  "fetch_window cfg w window =
     collect (map (\<lambda>(i, s). case fetch_product_data_with_retry cfg s (remote w i) 3 of
                               Inl e \<Rightarrow> Inl e
                             | Inr r \<Rightarrow> Inr (i, returned r))
                  (as_completed w window))"

text \<open>
  The sequential writes of a window; each status is kept with the position it is for.
  The pauses between windows and between groups only pass time and are left out.
\<close>

fun write_all ::
  "config \<Rightarrow> world \<Rightarrow> database \<Rightarrow> (nat \<times> product) list \<Rightarrow> (nat \<times> write_result) list \<times> database" where
  "write_all cfg w db [] = ([], db)"
| "write_all cfg w db ((i, product_data) # ps) =
     (let (res, db1) = update_product_in_db cfg (db_envs w i) db product_data;
          (rs, db2) = write_all cfg w db1 ps
      in ((i, res) # rs, db2))"

text \<open>The loop \<open>for j in range(0, len(batch), max_concurrent)\<close>, from index \<open>j\<close> on.\<close>

function concurrent_batches ::
  "config \<Rightarrow> world \<Rightarrow> nat \<Rightarrow> item list \<Rightarrow> nat \<Rightarrow> database \<Rightarrow>
   py_error + ((nat \<times> write_result) list \<times> database)" where
  "concurrent_batches cfg w max_concurrent batch j db =
     (if 0 < max_concurrent \<and> j < length batch then
        (case fetch_window cfg w (take max_concurrent (drop j batch)) of
           Inl e \<Rightarrow> Inl e
         | Inr products_data \<Rightarrow>
             (case concurrent_batches cfg w max_concurrent batch (j + max_concurrent)
                     (snd (write_all cfg w db products_data)) of
                Inl e \<Rightarrow> Inl e
              | Inr (rs, db2) \<Rightarrow> Inr (fst (write_all cfg w db products_data) @ rs, db2)))
      else Inr ([], db))"
  by pat_completeness auto
termination
  by (relation "measure (\<lambda>(cfg, w, c, batch, j, db). length batch - j)") auto

declare concurrent_batches.simps [simp del]

text \<open>Python's \<open>range\<close> raises on a zero step and is empty on a negative one.\<close>

definition window_loop ::
  "config \<Rightarrow> world \<Rightarrow> int \<Rightarrow> item list \<Rightarrow> database \<Rightarrow>
   py_error + ((nat \<times> write_result) list \<times> database)" where
  "window_loop cfg w max_concurrent batch db =
     (if max_concurrent = 0 then Inl ValueError
      else if max_concurrent < 0 then Inr ([], db)
      else concurrent_batches cfg w (nat max_concurrent) batch 0 db)"

text \<open>The loop \<open>for i in range(0, len(skus), batch_size)\<close>, from index \<open>i\<close> on.\<close>

function batches ::
  "config \<Rightarrow> world \<Rightarrow> nat \<Rightarrow> int \<Rightarrow> item list \<Rightarrow> nat \<Rightarrow> database \<Rightarrow>
   py_error + ((nat \<times> write_result) list \<times> database)" where
  "batches cfg w batch_size max_concurrent skus i db =
     (if 0 < batch_size \<and> i < length skus then
        (case window_loop cfg w max_concurrent (take batch_size (drop i skus)) db of
           Inl e \<Rightarrow> Inl e
         | Inr (rs1, db1) \<Rightarrow>
             (case batches cfg w batch_size max_concurrent skus (i + batch_size) db1 of
                Inl e \<Rightarrow> Inl e
              | Inr (rs2, db2) \<Rightarrow> Inr (rs1 @ rs2, db2)))
      else Inr ([], db))"
  by pat_completeness auto
termination
  by (relation "measure (\<lambda>(cfg, w, b, c, skus, i, db). length skus - i)") auto

declare batches.simps [simp del]

definition process_entries ::
  "config \<Rightarrow> world \<Rightarrow> database \<Rightarrow> string list \<Rightarrow> int \<Rightarrow> int \<Rightarrow>
   py_error + ((nat \<times> write_result) list \<times> database)" where
  "process_entries cfg w db skus batch_size max_concurrent =
     (if batch_size = 0 then Inl ValueError
      else if batch_size < 0 then Inr ([], db)
      else batches cfg w (nat batch_size) max_concurrent (enumerate 0 skus) 0 db)"

record report =
  total_processed :: nat
  success_count :: nat
  updated_count :: nat
  failed_count :: nat
  results :: "write_result list"

fun is_failed :: "write_result \<Rightarrow> bool" where
  "is_failed (Failed msg) = True"
| "is_failed r = False"

definition process_products ::
  "config \<Rightarrow> world \<Rightarrow> database \<Rightarrow> string list \<Rightarrow> int \<Rightarrow> int \<Rightarrow> py_error + (report \<times> database)" where
  "process_products cfg w db skus batch_size max_concurrent =
     (case process_entries cfg w db skus batch_size max_concurrent of
        Inl e \<Rightarrow> Inl e
      | Inr (entries, db') \<Rightarrow>
          (let rs = map snd entries
           in Inr (\<lparr>total_processed = length rs,
                    success_count = length (filter (\<lambda>r. r = Updated \<or> r = No_update) rs),
                    updated_count = length (filter (\<lambda>r. r = Updated) rs),
                    failed_count = length (filter is_failed rs),
                    results = rs\<rparr>, db')))"

section \<open>Phase 2: the feed sent to the marketplace\<close>

text \<open>A row of \<open>produtos\<close> as phase 2 sees it.\<close>

record p2_row =
  sku2 :: string
  p2_handling_time_amz :: "int option"
  p2_quantity :: "int option"
  p2_atualizado :: int

type_synonym feed_row = "string \<times> int option \<times> int option"

record message =
  messageId :: nat
  operationType :: string
  message_sku :: string
  productType :: string
  fulfillment_channel_code :: string
  message_quantity :: "int option"
  lead_time_to_ship_max_days :: "int option"

record feed =
  sellerId :: string
  feed_version :: string
  issueLocale :: string
  messages :: "message list"

record feed_status =
  processingStatus :: "string option"
  resultFeedDocumentId :: "string option"

text \<open>What one status request can do: raise, or answer with a status code and a body.\<close>

datatype poll_response = PollRaised | PollAnswer int feed_status

text \<open>
  The collaborators of phase 2 that are not in the sources, as the driver sees them:
  the database connection, the constant \<open>STORE_ATUALIZADO\<close>, the seller identifier of
  \<open>AMAZON_CONFIG\<close>, the structural check \<open>validar_feed_json\<close>, and, for each slice, what
  the calls to the marketplace give back.
\<close>

record feed_env =
  credentials_loaded :: bool
  db_connection :: bool
  select_raises :: bool
  reset_raises :: bool
  STORE_ATUALIZADO :: int
  seller_id :: "string option"
  validar_feed_json :: "feed \<Rightarrow> bool"
  access_token :: "string option"
  created_document :: "nat \<Rightarrow> (string \<times> string) option"
  upload_accepted :: "nat \<Rightarrow> bool"
  submitted_feed_id :: "nat \<Rightarrow> string option"
  poll :: "nat \<Rightarrow> nat \<Rightarrow> poll_response"

definition is_vitacost :: "string \<Rightarrow> bool" where
  "is_vitacost s = (take 4 s = ''SEVC'')"

definition pending :: "feed_env \<Rightarrow> p2_row \<Rightarrow> bool" where
  "pending env r = (p2_atualizado r = STORE_ATUALIZADO env \<and> is_vitacost (sku2 r))"

definition extract_updated_data_phase2 :: "feed_env \<Rightarrow> p2_row list \<Rightarrow> feed_row list option" where
  "extract_updated_data_phase2 env tbl =
     (if \<not> db_connection env then None
      else if select_raises env then None
      else let rows = map (\<lambda>r. (sku2 r, p2_handling_time_amz r, p2_quantity r))
                          (filter (pending env) tbl)
           in if rows \<noteq> [] then Some rows else None)"

definition create_inventory_feed_phase2 :: "feed_env \<Rightarrow> feed_row list \<Rightarrow> feed option" where
  "create_inventory_feed_phase2 env data =
     (let msgs = map (\<lambda>(i, (s, h, q)).
                   \<lparr>messageId = i, operationType = ''PARTIAL_UPDATE'', message_sku = s,
                    productType = ''PRODUCT'', fulfillment_channel_code = ''DEFAULT'',
                    message_quantity = q, lead_time_to_ship_max_days = h\<rparr>)
                 (enumerate 1 data)
      in case seller_id env of
           None \<Rightarrow> None
         | Some sid \<Rightarrow>
             let f = \<lparr>sellerId = sid, feed_version = ''2.0'', issueLocale = ''en_US'',
                      messages = msgs\<rparr>
             in if validar_feed_json env f then Some f else None)"

text \<open>The polling loop, with the attempts that remain and the number of the next attempt.\<close>

fun poll_loop :: "(nat \<Rightarrow> poll_response) \<Rightarrow> nat \<Rightarrow> nat \<Rightarrow> feed_status option" where
  "poll_loop answers 0 attempt = None"
| "poll_loop answers (Suc remaining) attempt =
     (case answers attempt of
        PollRaised \<Rightarrow> poll_loop answers remaining (Suc attempt)
      | PollAnswer code st \<Rightarrow>
          if code = 200 then
            (if processingStatus st = Some ''DONE'' then Some st
             else if processingStatus st = Some ''CANCELLED'' \<or>
                     processingStatus st = Some ''FATAL'' then Some st
             else poll_loop answers remaining (Suc attempt))
          else poll_loop answers remaining (Suc attempt))"

definition verificar_status_feed :: "(nat \<Rightarrow> poll_response) \<Rightarrow> nat \<Rightarrow> feed_status option" where
  "verificar_status_feed answers max_attempts = poll_loop answers max_attempts 1"

definition reset_updated_flag :: "feed_env \<Rightarrow> p2_row list \<Rightarrow> p2_row list \<times> bool" where
  "reset_updated_flag env tbl =
     (if \<not> db_connection env then (tbl, False)
      else if reset_raises env then (tbl, False)
      else (map (\<lambda>r. if pending env r then r\<lparr>p2_atualizado := 0\<rparr> else r) tbl, True))"

text \<open>
  The pass of the driver's loop over one slice: where it stopped, or what the poll gave.
  The local copy of the feed and the download of the report have no part in what the
  driver does next (their results are dropped) and are left out.
\<close>

datatype slice_outcome =
    FeedNotBuilt
  | DocumentNotCreated
  | UploadRefused
  | FeedNotSent
  | Polled "feed_status option"

definition process_slice :: "feed_env \<Rightarrow> feed_row list \<Rightarrow> nat \<Rightarrow> slice_outcome" where
  "process_slice env batch_data batch_num =
     (case create_inventory_feed_phase2 env batch_data of
        None \<Rightarrow> FeedNotBuilt
      | Some f \<Rightarrow>
         (case created_document env batch_num of
            None \<Rightarrow> DocumentNotCreated
          | Some feed_document \<Rightarrow>
             if \<not> upload_accepted env batch_num then UploadRefused
             else (case submitted_feed_id env batch_num of
                     None \<Rightarrow> FeedNotSent
                   | Some feed_id \<Rightarrow> Polled (verificar_status_feed (poll env batch_num) 20))))"

text \<open>
  \<open>feed_result and "resultFeedDocumentId" in feed_result\<close>: the only case in which the pass
  leaves \<open>success\<close> as it is.
\<close>

fun keeps_success :: "slice_outcome \<Rightarrow> bool" where
  "keeps_success (Polled (Some st)) = (resultFeedDocumentId st \<noteq> None)"
| "keeps_success out = False"

fun batch_loop ::
  "feed_env \<Rightarrow> feed_row list \<Rightarrow> nat \<Rightarrow> nat \<Rightarrow> nat \<Rightarrow> bool \<Rightarrow> slice_outcome list \<times> bool" where
  "batch_loop env data batch_size 0 batch_num success = ([], success)"
| "batch_loop env data batch_size (Suc remaining) batch_num success =
     (let start_idx = (batch_num - 1) * batch_size;
          end_idx = min (batch_num * batch_size) (length data);
          batch_data = take (end_idx - start_idx) (drop start_idx data);
          out = process_slice env batch_data batch_num;
          success1 = (if keeps_success out then success else False);
          rest = batch_loop env data batch_size remaining (Suc batch_num) success1
      in (out # fst rest, snd rest))"

record phase2_run =
  run_success :: bool
  slice_outcomes :: "slice_outcome list"
  table_after :: "p2_row list"

definition process_in_batches ::
  "feed_env \<Rightarrow> p2_row list \<Rightarrow> feed_row list \<Rightarrow> nat \<Rightarrow> py_error + phase2_run" where
  "process_in_batches env tbl data batch_size =
     (if data = [] then Inr \<lparr>run_success = False, slice_outcomes = [], table_after = tbl\<rparr>
      else if batch_size = 0 then Inl ZeroDivisionError
      else
        let total_products = length data;
            num_batches = (total_products + batch_size - 1) div batch_size
        in case access_token env of
             None \<Rightarrow> Inr \<lparr>run_success = False, slice_outcomes = [], table_after = tbl\<rparr>
           | Some tok \<Rightarrow>
               let r = batch_loop env data batch_size num_batches 1 True
               in Inr \<lparr>run_success = snd r, slice_outcomes = fst r,
                       table_after = (if snd r then fst (reset_updated_flag env tbl) else tbl)\<rparr>)"

definition main_phase2 :: "feed_env \<Rightarrow> p2_row list \<Rightarrow> py_error + phase2_run" where
  "main_phase2 env tbl =
     (if \<not> credentials_loaded env
      then Inr \<lparr>run_success = False, slice_outcomes = [], table_after = tbl\<rparr>
      else case extract_updated_data_phase2 env tbl of
             None \<Rightarrow> Inr \<lparr>run_success = False, slice_outcomes = [], table_after = tbl\<rparr>
           | Some data \<Rightarrow> process_in_batches env tbl data 9990)"

section \<open>Auxiliary notions for the properties\<close>

definition retain :: "product \<Rightarrow> product option \<Rightarrow> product option" where
  "retain p lvr = (if is_better_response p lvr then Some p else lvr)"

definition suspect :: "product \<Rightarrow> bool" where
  "suspect p = (\<not> is_valid (analyze_response p [] 0))"

definition positive_price :: "product option \<Rightarrow> bool" where
  "positive_price c = (case c of None \<Rightarrow> False | Some b \<Rightarrow> fgt (price b) 0)"

definition in_stock :: "product option \<Rightarrow> bool" where
  "in_stock c = (case c of None \<Rightarrow> False | Some b \<Rightarrow> availability b = ''inStock'')"

definition suspect_opt :: "product option \<Rightarrow> bool" where
  "suspect_opt c = (case c of None \<Rightarrow> True | Some b \<Rightarrow> suspect b)"

definition improves :: "product option \<Rightarrow> product option \<Rightarrow> bool" where
  "improves c c' = ((\<not> positive_price c \<or> positive_price c') \<and> (\<not> in_stock c \<or> c' = c))"

definition fetched_before ::
  "config \<Rightarrow> string \<Rightarrow> (int \<Rightarrow> http_outcome) \<Rightarrow> int \<Rightarrow> product option \<Rightarrow> bool" where
  "fetched_before cfg s api a c =
     (case c of None \<Rightarrow> True
      | Some b \<Rightarrow> \<exists>j. 1 \<le> j \<and> j < a \<and> b = fetch_product_data cfg s (api j))"

definition zero_out :: "product \<Rightarrow> bool" where
  "zero_out p = (price p = Num 0 \<and> availability p = ''outOfStock'')"

definition test_config :: config where
  "test_config = \<lparr>stock_level = 20, handling_time_omd = 1,
                   provider_specific_handling_time = 3, update_flag_value = 4\<rparr>"

definition always_timeout :: "int \<Rightarrow> http_outcome" where
  "always_timeout k = Timeout"

definition branded_then_timeout :: "int \<Rightarrow> http_outcome" where
  "branded_then_timeout k =
     (if k = 1 then Response 200 True
        (Some \<lparr>availability_field = Some ''outOfStock'', price_field = Some (Num 0),
               brand_field = Some ''Sony'', quantity_field = None\<rparr>)
      else Timeout)"

definition priced_then_in_stock :: "int \<Rightarrow> http_outcome" where
  "priced_then_in_stock k =
     (if k = 1 then Response 200 True
        (Some \<lparr>availability_field = Some ''OutOfStock'', price_field = Some (Num 50),
               brand_field = Some ''Sony'', quantity_field = None\<rparr>)
      else Response 200 True
        (Some \<lparr>availability_field = Some ''InStock'', price_field = Some (Num 3),
               brand_field = Some ''Sony'', quantity_field = None\<rparr>))"

definition priced_then_timeout :: "int \<Rightarrow> http_outcome" where
  "priced_then_timeout k =
     (if k = 1 then Response 200 True
        (Some \<lparr>availability_field = Some ''OutOfStock'', price_field = Some (Num 50),
               brand_field = Some ''Sony'', quantity_field = None\<rparr>)
      else Timeout)"

fun is_transport_failure :: "http_outcome \<Rightarrow> bool" where
  "is_transport_failure Timeout = True"
| "is_transport_failure (RequestFailed msg) = True"
| "is_transport_failure (Response status success body) = False"

definition no_fault :: "db_env \<Rightarrow> bool" where
  "no_fault env = (cursor_fault env = None \<and> select_fault env = None \<and>
                   touch_fault env = None \<and> write_fault env = None)"

text \<open>The row carries every mapped field of the answer, the timestamp and the update flag.\<close>

definition row_matches :: "config \<Rightarrow> nat \<Rightarrow> product \<Rightarrow> db_row \<Rightarrow> bool" where
  "row_matches cfg t p r =
     (supplier_price r = Some (price p) \<and> db_quantity r = Some (quantity p) \<and>
      db_availability r = Some (availability p) \<and> db_brand r = Some (brand p) \<and>
      lead_time r = Some (handling_time_omd cfg) \<and>
      lead_time_2 r = Some (provider_specific_handling_time cfg) \<and>
      handling_time_amz r = Some (handlingTime p) \<and>
      last_update r = t \<and> atualizado r = update_flag_value cfg)"

definition quiet_env :: db_env where
  "quiet_env = \<lparr>cursor_fault = None, select_fault = None, touch_fault = None,
                write_fault = None, drift = (\<lambda>db. db), now = 100\<rparr>"

definition stale_row :: db_row where
  "stale_row = \<lparr>supplier_price = Some (Num 10), db_quantity = Some 0,
                db_availability = Some ''outOfStock'', db_brand = None, lead_time = Some 1,
                lead_time_2 = Some 3, handling_time_amz = Some 4, last_update = 7,
                atualizado = 0\<rparr>"

definition fresh_answer :: product where
  "fresh_answer = \<lparr>sku = ''6569319'', price = Num 1399, brand = ''Sony'', quantity = 20,
                   availability = ''inStock'', handlingTime = 4\<rparr>"

definition stale_answer :: product where
  "stale_answer = \<lparr>sku = ''6569319'', price = Num 10, brand = [], quantity = 0,
                   availability = ''outOfStock'', handlingTime = 4\<rparr>"

definition one_row_db :: database where
  "one_row_db = [''6569319'' \<mapsto> stale_row]"

definition test_skus :: "string list" where
  "test_skus = [''6569319'', ''6583949'', ''6577453'', ''6529313'',
                ''6519664'', ''6442037'', ''6568259'', ''6537630'']"

definition calm_world :: world where
  "calm_world = \<lparr>remote = (\<lambda>i k. Timeout), finished_at = (\<lambda>i. 8 - i),
                 db_envs = (\<lambda>i. quiet_env)\<rparr>"

definition accepting_env :: feed_env where
  "accepting_env =
     \<lparr>credentials_loaded = True, db_connection = True, select_raises = False,
      reset_raises = False, STORE_ATUALIZADO = 4, seller_id = Some ''SELLER'',
      validar_feed_json = (\<lambda>f. True), access_token = Some ''token'',
      created_document = (\<lambda>n. Some (''doc-in'', ''https://upload'')),
      upload_accepted = (\<lambda>n. True), submitted_feed_id = (\<lambda>n. Some ''feed-1''),
      poll = (\<lambda>n k. PollAnswer 200
                \<lparr>processingStatus = Some ''DONE'', resultFeedDocumentId = Some ''doc-1''\<rparr>)\<rparr>"

definition fatal_env :: feed_env where
  "fatal_env =
     accepting_env\<lparr>poll := (\<lambda>n k. PollAnswer 200
        \<lparr>processingStatus = Some ''FATAL'', resultFeedDocumentId = Some ''doc-1''\<rparr>)\<rparr>"


definition pending_table :: "p2_row list" where
  "pending_table =
     [\<lparr>sku2 = ''SEVC-1'', p2_handling_time_amz = Some 4, p2_quantity = Some 20,
       p2_atualizado = 4\<rparr>]"

section \<open>Properties of the validator and of the single lookup\<close>

lemma lower_instock: "lower ''InStock'' = ''instock''"
  by (simp add: lower_def lower_char_def upper_lower_def)

lemma fetch_product_data_cases:
  "fetch_product_data cfg s out = error_fallback cfg s \<or>
   (\<exists>d. fetch_product_data cfg s out = transform cfg s d)"
  by (cases out) (auto split: option.splits)

lemma transform_availability:
  "availability (transform cfg s d) = ''inStock'' \<or> availability (transform cfg s d) = ''outOfStock''"
  by (simp add: transform_def Let_def)

lemma fetch_availability:
  "availability (fetch_product_data cfg s out) = ''inStock'' \<or>
   availability (fetch_product_data cfg s out) = ''outOfStock''"
proof -
  from fetch_product_data_cases [of cfg s out] show ?thesis
  proof
    assume "fetch_product_data cfg s out = error_fallback cfg s"
    then show ?thesis by (simp add: error_fallback_def)
  next
    assume "\<exists>d. fetch_product_data cfg s out = transform cfg s d"
    then obtain d where "fetch_product_data cfg s out = transform cfg s d" ..
    then show ?thesis using transform_availability [of cfg s d] by simp
  qed
qed

lemma fetch_sku: "sku (fetch_product_data cfg s out) = s"
  using fetch_product_data_cases [of cfg s out]
  by (auto simp: error_fallback_def transform_def Let_def)

lemma fetch_quantity:
  "quantity (fetch_product_data cfg s out) =
     (if availability (fetch_product_data cfg s out) = ''inStock'' then stock_level cfg else 0)"
  using fetch_product_data_cases [of cfg s out]
  by (auto simp: error_fallback_def transform_def Let_def)

lemma fetch_handlingTime:
  "handlingTime (fetch_product_data cfg s out) =
     handling_time_omd cfg + provider_specific_handling_time cfg"
  using fetch_product_data_cases [of cfg s out]
  by (auto simp: error_fallback_def transform_def Let_def)

text \<open>
  C1. The validator is a function of the answer alone (the identifier and the attempt
  number only feed the log), and its verdict is that of the first matching rule:
  out of stock with a positive price is invalid with severity high; else out of stock
  with price zero is invalid, medium; else a price strictly between 0 and 5 is invalid,
  medium; else a price above 10000 is invalid, low; otherwise the answer is valid.
\<close>

theorem analyze_response_first_match:
  "(is_valid (analyze_response p s n), severity (analyze_response p s n)) =
     (if availability p = ''outOfStock'' \<and> fgt (price p) 0 then (False, ''high'')
      else if availability p = ''outOfStock'' \<and> feq (price p) 0 then (False, ''medium'')
      else if fgt (price p) 0 \<and> flt (price p) 5 then (False, ''medium'')
      else if fgt (price p) 10000 then (False, ''low'')
      else (True, ''low''))
   \<and> analyze_response p s n = analyze_response p s' n'"
  by (simp add: analyze_response_def Let_def)

text \<open>
  C10. Every answer of a single lookup, the error fallback included, has the configured
  stock level as quantity when it is in stock and 0 otherwise, and has the sum of the two
  handling-time constants as handling time; a quantity reported by the API changes
  nothing in the answer.
\<close>

theorem fetch_product_data_quantity_handling:
  "quantity (fetch_product_data cfg s out) =
     (if availability (fetch_product_data cfg s out) = ''inStock'' then stock_level cfg else 0)
   \<and> handlingTime (fetch_product_data cfg s out) =
       handling_time_omd cfg + provider_specific_handling_time cfg
   \<and> fetch_product_data cfg s (Response code ok (Some (d\<lparr>quantity_field := q\<rparr>))) =
       fetch_product_data cfg s (Response code ok (Some d))"
  by (simp add: fetch_quantity fetch_handlingTime transform_def)

section \<open>Properties of the retrying fetcher\<close>

lemma is_valid_suspect: "is_valid (analyze_response p s n) = (\<not> suspect p)"
  by (simp add: suspect_def analyze_response_def Let_def)

lemma attempt_step_eq:
  "attempt_step cfg s out m a lvr =
     (let p = fetch_product_data cfg s out in
      if \<not> suspect p then Return p lvr
      else if a < m then Retry (calculate_retry_delay a (severity (analyze_response p s a))) (retain p lvr)
      else Return (case retain p lvr of Some b \<Rightarrow> b | None \<Rightarrow> p) (retain p lvr))"
  by (simp add: attempt_step_def try_block_def Let_def retain_def is_valid_suspect)

lemma fgt_not_feq: "fgt x 0 \<Longrightarrow> \<not> feq x 0"
  by (cases x) auto

lemma fgt_10000: "fgt x 10000 \<Longrightarrow> fgt x 0"
  by (cases x) auto

lemma feq_Num: "feq x 0 \<Longrightarrow> x = Num 0"
  by (cases x) auto

lemma suspect_in_stock_positive:
  "suspect p \<Longrightarrow> availability p \<noteq> ''outOfStock'' \<Longrightarrow> fgt (price p) 0"
  by (auto simp: suspect_def analyze_response_def Let_def fgt_10000 split: if_splits)

lemma suspect_not_positive:
  "suspect p \<Longrightarrow> \<not> fgt (price p) 0 \<Longrightarrow> availability p = ''outOfStock'' \<and> price p = Num 0"
  by (auto simp: suspect_def analyze_response_def Let_def fgt_10000 feq_Num split: if_splits)

lemma retain_cases: "retain p lvr = Some p \<or> (retain p lvr = lvr \<and> lvr \<noteq> None)"
  by (auto simp: retain_def is_better_response_def split: option.splits)

lemma retry_loop_unfold:
  "retry_loop cfg s api m a lvr =
     (let p = fetch_product_data cfg s (api a) in
      if \<not> suspect p then \<lparr>returned = p, sleeps = [], candidates = [lvr]\<rparr>
      else if a < m then
        (let r = retry_loop cfg s api m (a + 1) (retain p lvr)
         in r\<lparr>sleeps := calculate_retry_delay a (severity (analyze_response p s a)) # sleeps r,
              candidates := retain p lvr # candidates r\<rparr>)
      else \<lparr>returned = (case retain p lvr of Some b \<Rightarrow> b | None \<Rightarrow> p), sleeps = [],
             candidates = [retain p lvr]\<rparr>)"
  by (subst retry_loop.simps) (simp add: attempt_step_eq Let_def)

subsection \<open>The call always returns\<close>

lemma retain_fetched:
  "fetched_before cfg s api a lvr \<Longrightarrow> 1 \<le> a \<Longrightarrow>
   fetched_before cfg s api (a + 1) (retain (fetch_product_data cfg s (api a)) lvr)"
  using retain_cases [of "fetch_product_data cfg s (api a)" lvr]
  by (fastforce simp: fetched_before_def split: option.splits)

lemma returned_is_fetched:
  "1 \<le> a \<Longrightarrow> a \<le> m \<Longrightarrow> fetched_before cfg s api a lvr \<Longrightarrow>
   \<exists>k. 1 \<le> k \<and> k \<le> m \<and>
       returned (retry_loop cfg s api m a lvr) = fetch_product_data cfg s (api k)"
proof (induction cfg s api m a lvr rule: retry_loop.induct)
  case (1 cfg s api m a lvr)
  let ?p = "fetch_product_data cfg s (api a)"
  have kept: "fetched_before cfg s api (a + 1) (retain ?p lvr)"
    using "1.prems" by (simp add: retain_fetched)
  show ?case
  proof (cases "suspect ?p")
    case False
    then have "returned (retry_loop cfg s api m a lvr) = ?p"
      by (subst retry_loop_unfold) (simp add: Let_def)
    with "1.prems" show ?thesis by auto
  next
    case True
    show ?thesis
    proof (cases "a < m")
      case True
      with \<open>suspect ?p\<close> have st: "attempt_step cfg s (api a) m a lvr =
          Retry (calculate_retry_delay a (severity (analyze_response ?p s a))) (retain ?p lvr)"
        by (simp add: attempt_step_eq Let_def)
      have "returned (retry_loop cfg s api m a lvr) =
            returned (retry_loop cfg s api m (a + 1) (retain ?p lvr))"
        using True \<open>suspect ?p\<close> by (subst retry_loop_unfold) (simp add: Let_def)
      with "1.IH" [OF st _ _ kept] True "1.prems" show ?thesis by auto
    next
      case False
      with \<open>suspect ?p\<close> have ret: "returned (retry_loop cfg s api m a lvr) =
          (case retain ?p lvr of Some b \<Rightarrow> b | None \<Rightarrow> ?p)"
        by (subst retry_loop_unfold) (simp add: Let_def)
      from retain_cases [of ?p lvr] show ?thesis
      proof
        assume "retain ?p lvr = Some ?p"
        with ret "1.prems" show ?thesis by auto
      next
        assume "retain ?p lvr = lvr \<and> lvr \<noteq> None"
        then obtain b where b: "lvr = Some b" "retain ?p lvr = Some b" by auto
        with "1.prems" obtain j where "1 \<le> j" "j < a" "b = fetch_product_data cfg s (api j)"
          by (auto simp: fetched_before_def)
        with ret b "1.prems" show ?thesis by (intro exI [of _ j]) simp
      qed
    qed
  qed
qed

text \<open>
  C7. With at least one attempt allowed, for every identifier and every behaviour of the
  remote lookup (a success, a malformed body, a status other than 200, a timeout, any
  other exception), the call returns, and what it returns is the answer that the single
  lookup built at one of the attempts: no exception leaves the function.
\<close>

theorem fetch_with_retry_always_returns:
  assumes "1 \<le> m"
  shows "\<exists>r k. fetch_product_data_with_retry cfg s api m = Inr r \<and> 1 \<le> k \<and> k \<le> m \<and>
           returned r = fetch_product_data cfg s (api k)"
proof -
  have "\<exists>k. 1 \<le> k \<and> k \<le> m \<and>
       returned (retry_loop cfg s api m 1 None) = fetch_product_data cfg s (api k)"
    using assms by (intro returned_is_fetched) (simp_all add: fetched_before_def)
  with assms show ?thesis
    by (auto simp: fetch_product_data_with_retry_def)
qed

theorem fetch_with_retry_always_returns_witness:
  "(1::int) \<le> 3 \<and>
   (\<exists>r k. fetch_product_data_with_retry test_config ''6569319'' always_timeout 3 = Inr r \<and>
      1 \<le> k \<and> k \<le> 3 \<and>
      returned r = fetch_product_data test_config ''6569319'' (always_timeout k))"
  using fetch_with_retry_always_returns [of 3 test_config "''6569319''" always_timeout]
  by simp

subsection \<open>Transport failures and the backoff\<close>

text \<open>No call in the \<open>try\<close> block raises, so the handler is never entered.\<close>

lemma try_block_completes: "\<exists>st. try_block cfg s out m a lvr = Inr st"
  by (simp add: try_block_def Let_def)

lemma py_int_of_int: "py_int (of_int n) = n"
  by (simp add: py_int_def)

lemma medium_delay: "calculate_retry_delay a ''medium'' = 1500 * a"
proof -
  have e: "(of_int (1000 * a) :: rat) * (3 / 2) = of_int (1500 * a)" by simp
  have "calculate_retry_delay a ''medium'' = py_int (of_int (1000 * a) * (3 / 2))"
    by (simp add: calculate_retry_delay_def severity_multipliers_def Let_def del: of_int_mult)
  then show ?thesis by (simp only: e py_int_of_int)
qed

lemma high_delay: "calculate_retry_delay a ''high'' = 2000 * a"
proof -
  have e: "(of_int (1000 * a) :: rat) * 2 = of_int (2000 * a)" by simp
  have "calculate_retry_delay a ''high'' = py_int (of_int (1000 * a) * 2)"
    by (simp add: calculate_retry_delay_def severity_multipliers_def Let_def del: of_int_mult)
  then show ?thesis by (simp only: e py_int_of_int)
qed

lemma transport_failure_step:
  assumes "is_transport_failure out" and "a < m"
  shows "attempt_step cfg s out m a lvr = Retry (1500 * a) (retain (error_fallback cfg s) lvr)"
proof -
  from assms(1) have f: "fetch_product_data cfg s out = error_fallback cfg s"
    by (cases out) simp_all
  have "suspect (error_fallback cfg s)"
    and "severity (analyze_response (error_fallback cfg s) s a) = ''medium''"
    by (simp_all add: suspect_def analyze_response_def error_fallback_def Let_def)
  with assms(2) show ?thesis
    by (simp add: attempt_step_eq f Let_def medium_delay)
qed

text \<open>
  C2. With three attempts that all time out, the call sleeps 1500 ms and then 3000 ms,
  the backoff of severity medium, and returns the out-of-stock zero-price answer: the
  single lookup has turned each timeout into that answer, which the validator's second
  rule classifies, and the handler with severity high is never entered.
\<close>

theorem timeouts_sleep_medium_backoff:
  "fetch_product_data_with_retry test_config ''6569319'' always_timeout 3 =
     Inr (retry_loop test_config ''6569319'' always_timeout 3 1 None)
   \<and> sleeps (retry_loop test_config ''6569319'' always_timeout 3 1 None) = [1500, 3000]
   \<and> returned (retry_loop test_config ''6569319'' always_timeout 3 1 None) =
       error_fallback test_config ''6569319''"
  by code_simp

text \<open>
  When an earlier attempt has left a candidate, a last attempt that times out returns
  that candidate.
\<close>

lemma candidate_survives_final_timeout:
  "returned (retry_loop test_config ''6569319'' priced_then_timeout 3 1 None) =
     fetch_product_data test_config ''6569319'' (priced_then_timeout 1)
   \<and> price (returned (retry_loop test_config ''6569319'' priced_then_timeout 3 1 None)) = Num 50
   \<and> sleeps (retry_loop test_config ''6569319'' priced_then_timeout 3 1 None) = [2000, 3000]"
  by code_simp

subsection \<open>The retained candidate\<close>

lemma retain_positive:
  "suspect p \<Longrightarrow> positive_price lvr \<Longrightarrow> positive_price (retain p lvr)"
  by (auto simp: retain_def positive_price_def is_better_response_def
           dest: suspect_in_stock_positive split: option.splits if_splits)

lemma retain_in_stock:
  "suspect_opt lvr \<Longrightarrow> in_stock lvr \<Longrightarrow> retain p lvr = lvr"
  by (auto simp: retain_def in_stock_def suspect_opt_def is_better_response_def
           dest: suspect_in_stock_positive fgt_not_feq split: option.splits if_splits)

lemma retain_suspect:
  "suspect p \<Longrightarrow> suspect_opt lvr \<Longrightarrow> suspect_opt (retain p lvr)"
  by (auto simp: retain_def suspect_opt_def)

lemma candidates_positive:
  "positive_price lvr \<Longrightarrow> \<forall>c \<in> set (candidates (retry_loop cfg s api m a lvr)). positive_price c"
proof (induction cfg s api m a lvr rule: retry_loop.induct)
  case (1 cfg s api m a lvr)
  let ?p = "fetch_product_data cfg s (api a)"
  show ?case
  proof (cases "suspect ?p \<and> a < m")
    case True
    then have st: "attempt_step cfg s (api a) m a lvr =
        Retry (calculate_retry_delay a (severity (analyze_response ?p s a))) (retain ?p lvr)"
      by (simp add: attempt_step_eq Let_def)
    have "positive_price (retain ?p lvr)"
      using True "1.prems" by (simp add: retain_positive)
    with "1.IH" [OF st] True "1.prems" show ?thesis
      by (subst retry_loop_unfold) (simp add: Let_def)
  next
    case False
    with "1.prems" show ?thesis
      by (subst retry_loop_unfold) (auto simp: Let_def retain_positive)
  qed
qed

lemma candidates_in_stock:
  "suspect_opt lvr \<Longrightarrow> in_stock lvr \<Longrightarrow>
   \<forall>c \<in> set (candidates (retry_loop cfg s api m a lvr)). c = lvr"
proof (induction cfg s api m a lvr rule: retry_loop.induct)
  case (1 cfg s api m a lvr)
  let ?p = "fetch_product_data cfg s (api a)"
  have keep: "retain ?p lvr = lvr"
    using "1.prems" by (rule retain_in_stock)
  show ?case
  proof (cases "suspect ?p \<and> a < m")
    case True
    then have st: "attempt_step cfg s (api a) m a lvr =
        Retry (calculate_retry_delay a (severity (analyze_response ?p s a))) lvr"
      by (simp add: attempt_step_eq keep Let_def)
    from "1.IH" [OF st "1.prems"] True show ?thesis
      by (subst retry_loop_unfold) (simp add: Let_def keep)
  next
    case False
    then show ?thesis
      by (subst retry_loop_unfold) (auto simp: Let_def keep)
  qed
qed

lemma candidates_sorted:
  "suspect_opt lvr \<Longrightarrow> sorted_wrt improves (candidates (retry_loop cfg s api m a lvr))"
proof (induction cfg s api m a lvr rule: retry_loop.induct)
  case (1 cfg s api m a lvr)
  let ?p = "fetch_product_data cfg s (api a)"
  show ?case
  proof (cases "suspect ?p \<and> a < m")
    case True
    then have st: "attempt_step cfg s (api a) m a lvr =
        Retry (calculate_retry_delay a (severity (analyze_response ?p s a))) (retain ?p lvr)"
      by (simp add: attempt_step_eq Let_def)
    have sus: "suspect_opt (retain ?p lvr)"
      using True "1.prems" by (simp add: retain_suspect)
    have "\<forall>c \<in> set (candidates (retry_loop cfg s api m (a + 1) (retain ?p lvr))).
            improves (retain ?p lvr) c"
      using candidates_positive [of "retain ?p lvr" cfg s api m "a + 1"]
            candidates_in_stock [OF sus, of cfg s api m "a + 1"]
      by (auto simp: improves_def)
    with "1.IH" [OF st sus] True show ?thesis
      by (subst retry_loop_unfold) (simp add: Let_def)
  next
    case False
    then show ?thesis
      by (subst retry_loop_unfold) (auto simp: Let_def)
  qed
qed

text \<open>
  Against C8 as stated: an out-of-stock answer at price 50 followed by in-stock answers
  at price 3. The retained price goes from 50 down to 3.
\<close>

theorem best_price_drop_counterexample:
  "fetch_product_data_with_retry test_config ''6569319'' priced_then_in_stock 3 =
     Inr (retry_loop test_config ''6569319'' priced_then_in_stock 3 1 None)
   \<and> map (map_option price)
        (candidates (retry_loop test_config ''6569319'' priced_then_in_stock 3 1 None)) =
       [Some (Num 50), Some (Num 3), Some (Num 3)]"
  by code_simp

text \<open>
  C8 (as amended). Across the attempts of one call, the value of \<open>last_valid_response\<close>
  never goes back from a positive price to a price that is not positive, and once it is
  an in-stock answer it is never replaced at all, so never by an out-of-stock one. The
  price may still drop from one positive value to a smaller one, when an in-stock
  answer supersedes an out-of-stock one.
\<close>

theorem best_candidate_never_worse:
  assumes "fetch_product_data_with_retry cfg s api m = Inr r"
    and "i < j" and "j < length (candidates r)"
  shows "(positive_price (candidates r ! i) \<longrightarrow> positive_price (candidates r ! j))
       \<and> (in_stock (candidates r ! i) \<longrightarrow> candidates r ! j = candidates r ! i)"
proof -
  from assms(1) have r: "r = retry_loop cfg s api m 1 None"
    by (simp add: fetch_product_data_with_retry_def split: if_splits)
  have "sorted_wrt improves (candidates r)"
    unfolding r by (rule candidates_sorted) (simp add: suspect_opt_def)
  then have "improves (candidates r ! i) (candidates r ! j)"
    using assms(2,3) by (simp add: sorted_wrt_iff_nth_less)
  then show ?thesis by (auto simp: improves_def)
qed

theorem best_candidate_never_worse_witness:
  "positive_price
     (candidates (retry_loop test_config ''6569319'' priced_then_in_stock 3 1 None) ! 0)
   \<and> positive_price
     (candidates (retry_loop test_config ''6569319'' priced_then_in_stock 3 1 None) ! 1)
   \<and> in_stock
     (candidates (retry_loop test_config ''6569319'' priced_then_in_stock 3 1 None) ! 1)
   \<and> candidates (retry_loop test_config ''6569319'' priced_then_in_stock 3 1 None) ! 2 =
     candidates (retry_loop test_config ''6569319'' priced_then_in_stock 3 1 None) ! 1"
proof -
  let ?R = "retry_loop test_config ''6569319'' priced_then_in_stock 3 1 None"
  have run: "fetch_product_data_with_retry test_config ''6569319'' priced_then_in_stock 3 = Inr ?R"
    by (simp add: fetch_product_data_with_retry_def)
  have len: "2 < length (candidates ?R)" by code_simp
  have p0: "positive_price (candidates ?R ! 0)" by code_simp
  have s1: "in_stock (candidates ?R ! 1)" by code_simp
  from best_candidate_never_worse [OF run, of 0 1] len p0
  have p1: "positive_price (candidates ?R ! 1)" by simp
  from best_candidate_never_worse [OF run, of 1 2] len s1
  have "candidates ?R ! 2 = candidates ?R ! 1" by simp
  with p0 p1 s1 show ?thesis by simp
qed

subsection \<open>The answer returned when every attempt is suspicious\<close>

lemma retain_zero_out: "zero_out p \<Longrightarrow> retain p (Some b) = Some b"
  by (simp add: retain_def is_better_response_def zero_out_def)

lemma retain_None: "retain p None = Some p"
  by (simp add: retain_def is_better_response_def)

lemma plain_suspect_zero_out:
  "suspect p \<Longrightarrow> \<not> positive_price (Some p) \<Longrightarrow> zero_out p"
  by (simp add: positive_price_def zero_out_def suspect_not_positive)

lemma retain_plain_zero_out:
  assumes "suspect p" and "\<not> positive_price (retain p lvr)"
    and "case lvr of None \<Rightarrow> True | Some b \<Rightarrow> zero_out b"
  shows "zero_out p"
proof (cases "is_better_response p lvr")
  case True
  with assms show ?thesis by (simp add: retain_def plain_suspect_zero_out)
next
  case False
  then obtain b where b: "lvr = Some b" "zero_out b"
    using assms(3) by (cases lvr) (auto simp: is_better_response_def)
  with False have "\<not> fgt (price p) 0"
    by (auto simp: is_better_response_def zero_out_def split: if_splits)
  with assms(1) show ?thesis by (simp add: zero_out_def suspect_not_positive)
qed

lemma all_suspect_plain_run:
  assumes "a \<le> m"
    and "\<forall>k. a \<le> k \<and> k \<le> m \<longrightarrow> suspect (fetch_product_data cfg s (api k))"
    and "\<forall>c \<in> set (candidates (retry_loop cfg s api m a lvr)). \<not> positive_price c"
    and "case lvr of None \<Rightarrow> True | Some b \<Rightarrow> zero_out b"
  shows "returned (retry_loop cfg s api m a lvr) =
           (case lvr of Some b \<Rightarrow> b | None \<Rightarrow> fetch_product_data cfg s (api a))
         \<and> zero_out (fetch_product_data cfg s (api a))
         \<and> zero_out (fetch_product_data cfg s (api m))"
  using assms
proof (induction cfg s api m a lvr rule: retry_loop.induct)
  case (1 cfg s api m a lvr)
  let ?p = "fetch_product_data cfg s (api a)"
  let ?kept = "retain ?p lvr"
  have sus: "suspect ?p" using "1.prems" by simp
  have head: "\<not> positive_price ?kept"
    using "1.prems"(3) sus by (subst (asm) retry_loop_unfold) (auto simp: Let_def split: if_splits)
  have z: "zero_out ?p"
    using sus head "1.prems"(4) by (rule retain_plain_zero_out)
  have kept: "?kept = Some (case lvr of Some b \<Rightarrow> b | None \<Rightarrow> ?p)"
    using z by (cases lvr) (simp_all add: retain_None retain_zero_out)
  show ?case
  proof (cases "a < m")
    case True
    with sus have st: "attempt_step cfg s (api a) m a lvr =
        Retry (calculate_retry_delay a (severity (analyze_response ?p s a))) ?kept"
      by (simp add: attempt_step_eq Let_def)
    have unf: "retry_loop cfg s api m a lvr =
        (retry_loop cfg s api m (a + 1) ?kept)
          \<lparr>sleeps := calculate_retry_delay a (severity (analyze_response ?p s a)) #
                     sleeps (retry_loop cfg s api m (a + 1) ?kept),
           candidates := ?kept # candidates (retry_loop cfg s api m (a + 1) ?kept)\<rparr>"
      using True sus by (subst retry_loop_unfold) (simp add: Let_def)
    have p1: "a + 1 \<le> m" using True by simp
    have p2: "\<forall>k. a + 1 \<le> k \<and> k \<le> m \<longrightarrow> suspect (fetch_product_data cfg s (api k))"
      using "1.prems"(2) by simp
    have p3: "\<forall>c \<in> set (candidates (retry_loop cfg s api m (a + 1) ?kept)). \<not> positive_price c"
      using "1.prems"(3) by (subst (asm) unf) simp
    have p4: "case ?kept of None \<Rightarrow> True | Some b \<Rightarrow> zero_out b"
      using z "1.prems"(4) by (cases lvr) (simp_all add: retain_None retain_zero_out)
    from "1.IH" [OF st p1 p2 p3 p4]
    have "returned (retry_loop cfg s api m (a + 1) ?kept) =
            (case lvr of Some b \<Rightarrow> b | None \<Rightarrow> ?p)"
      and "zero_out (fetch_product_data cfg s (api m))"
      by (simp_all add: kept)
    with z show ?thesis by (subst unf) simp
  next
    case False
    with "1.prems"(1) have "a = m" by simp
    with sus z kept show ?thesis
      by (subst retry_loop_unfold) (simp add: Let_def)
  qed
qed

lemma zero_out_fetched:
  "zero_out (fetch_product_data cfg s out) \<Longrightarrow>
   fetch_product_data cfg s out =
     (error_fallback cfg s)\<lparr>brand := brand (fetch_product_data cfg s out)\<rparr>"
  using fetch_quantity [of cfg s out] fetch_handlingTime [of cfg s out] fetch_sku [of cfg s out]
  by (simp add: zero_out_def error_fallback_def)

text \<open>
  Against C3 as stated: the first attempt answers out of stock at price 0 with a brand,
  the next two time out. Every attempt fails validation, no candidate has a positive
  price or is in stock, and the returned answer is not the answer of the last attempt.
\<close>

theorem last_attempt_counterexample:
  "fetch_product_data_with_retry test_config ''6569319'' branded_then_timeout 3 =
     Inr (retry_loop test_config ''6569319'' branded_then_timeout 3 1 None)
   \<and> \<not> is_valid (analyze_response
          (fetch_product_data test_config ''6569319'' (branded_then_timeout 1)) ''6569319'' 1)
   \<and> \<not> is_valid (analyze_response
          (fetch_product_data test_config ''6569319'' (branded_then_timeout 2)) ''6569319'' 2)
   \<and> \<not> is_valid (analyze_response
          (fetch_product_data test_config ''6569319'' (branded_then_timeout 3)) ''6569319'' 3)
   \<and> map positive_price
        (candidates (retry_loop test_config ''6569319'' branded_then_timeout 3 1 None)) =
       [False, False, False]
   \<and> map in_stock
        (candidates (retry_loop test_config ''6569319'' branded_then_timeout 3 1 None)) =
       [False, False, False]
   \<and> returned (retry_loop test_config ''6569319'' branded_then_timeout 3 1 None) \<noteq>
       fetch_product_data test_config ''6569319'' (branded_then_timeout 3)"
  by code_simp

text \<open>
  C3 (as amended). If the answer of every attempt fails validation and the retained
  candidate never has a positive price and is never in stock, the call returns the
  answer of the first attempt, which agrees with the answer of the last attempt in every
  field but the brand.
\<close>

theorem fallback_returns_first_attempt:
  assumes "fetch_product_data_with_retry cfg s api m = Inr r"
    and "\<forall>k. 1 \<le> k \<and> k \<le> m \<longrightarrow>
           \<not> is_valid (analyze_response (fetch_product_data cfg s (api k)) s k)"
    and "\<forall>c \<in> set (candidates r). \<not> positive_price c \<and> \<not> in_stock c"
  shows "returned r = fetch_product_data cfg s (api 1)
       \<and> returned r =
           (fetch_product_data cfg s (api m))\<lparr>brand := brand (fetch_product_data cfg s (api 1))\<rparr>"
proof -
  from assms(1) have m: "1 \<le> m" and r: "r = retry_loop cfg s api m 1 None"
    by (simp_all add: fetch_product_data_with_retry_def split: if_splits)
  have sus: "\<forall>k. 1 \<le> k \<and> k \<le> m \<longrightarrow> suspect (fetch_product_data cfg s (api k))"
    using assms(2) by (simp add: is_valid_suspect)
  have pl: "\<forall>c \<in> set (candidates (retry_loop cfg s api m 1 None)). \<not> positive_price c"
    using assms(3) r by simp
  from all_suspect_plain_run [OF m sus pl]
  have ret: "returned r = fetch_product_data cfg s (api 1)"
    and z1: "zero_out (fetch_product_data cfg s (api 1))"
    and zm: "zero_out (fetch_product_data cfg s (api m))"
    by (simp_all add: r)
  from zero_out_fetched [OF z1] zero_out_fetched [OF zm]
  have "fetch_product_data cfg s (api 1) =
        (fetch_product_data cfg s (api m))\<lparr>brand := brand (fetch_product_data cfg s (api 1))\<rparr>"
    by (metis product.update_convs(3) product.surjective)
  with ret show ?thesis by simp
qed

theorem fallback_returns_first_attempt_witness:
  "returned (retry_loop test_config ''6569319'' branded_then_timeout 3 1 None) =
     fetch_product_data test_config ''6569319'' (branded_then_timeout 1)
   \<and> returned (retry_loop test_config ''6569319'' branded_then_timeout 3 1 None) =
     (fetch_product_data test_config ''6569319'' (branded_then_timeout 3))
       \<lparr>brand := brand (fetch_product_data test_config ''6569319'' (branded_then_timeout 1))\<rparr>"
proof -
  let ?R = "retry_loop test_config ''6569319'' branded_then_timeout 3 1 None"
  have run: "fetch_product_data_with_retry test_config ''6569319'' branded_then_timeout 3 = Inr ?R"
    by (simp add: fetch_product_data_with_retry_def)
  have inv: "\<forall>k. 1 \<le> k \<and> k \<le> 3 \<longrightarrow>
      \<not> is_valid (analyze_response
           (fetch_product_data test_config ''6569319'' (branded_then_timeout k)) ''6569319'' k)"
  proof (intro allI impI)
    fix k :: int
    assume "1 \<le> k \<and> k \<le> 3"
    then have "k = 1 \<or> k = 2 \<or> k = 3" by arith
    then show "\<not> is_valid (analyze_response
           (fetch_product_data test_config ''6569319'' (branded_then_timeout k)) ''6569319'' k)"
      by (auto simp: branded_then_timeout_def analyze_response_def error_fallback_def
            transform_def lower_def lower_char_def upper_lower_def Let_def)
  qed
  have "list_all (\<lambda>c. \<not> positive_price c \<and> \<not> in_stock c) (candidates ?R)"
    by code_simp
  then have plain: "\<forall>c \<in> set (candidates ?R). \<not> positive_price c \<and> \<not> in_stock c"
    by (simp add: list_all_iff)
  from fallback_returns_first_attempt [OF run inv plain] show ?thesis .
qed

section \<open>Properties of the reconciliation writer\<close>

lemma write_row_rowcount:
  "snd (write_row cfg t p db) = (if db (sku p) = None then 0 else 1)"
  by (simp add: write_row_def split: option.splits)

lemma write_row_matches:
  "db (sku p) \<noteq> None \<Longrightarrow>
   \<exists>r. fst (write_row cfg t p db) (sku p) = Some r \<and> row_matches cfg t p r"
  by (auto simp: write_row_def row_matches_def split: option.splits)

lemma update_not_found:
  "no_fault env \<Longrightarrow> db (sku p) = None \<Longrightarrow>
   update_product_in_db cfg env db p = (Failed ''Product not found'', db)"
  by (simp add: update_product_in_db_def update_try_block_def no_fault_def)

lemma update_unchanged:
  "no_fault env \<Longrightarrow> db (sku p) = Some r \<Longrightarrow> \<not> has_changes cfg r p \<Longrightarrow>
   update_product_in_db cfg env db p = (No_update, touch_row (now env) (sku p) (drift env db))"
  by (simp add: update_product_in_db_def update_try_block_def no_fault_def Let_def)

lemma update_changed:
  assumes "no_fault env" and "db (sku p) = Some r" and "has_changes cfg r p"
  shows "update_product_in_db cfg env db p =
           (if drift env db (sku p) = None then Failed ''No rows updated'' else Updated,
            fst (write_row cfg (now env) p (drift env db)))"
proof (cases "drift env db (sku p)")
  case None
  with assms show ?thesis
    by (simp add: update_product_in_db_def update_try_block_def no_fault_def Let_def
          write_row_def)
next
  case (Some r')
  with assms show ?thesis
    by (simp add: update_product_in_db_def update_try_block_def no_fault_def Let_def
          write_row_def)
qed

lemma update_cursor_exception:
  "cursor_fault env = Some e \<Longrightarrow> fst (update_product_in_db cfg env db p) = Failed e"
  by (simp add: update_product_in_db_def update_try_block_def)

lemma update_select_exception:
  "cursor_fault env = None \<Longrightarrow> select_fault env = Some e \<Longrightarrow>
     fst (update_product_in_db cfg env db p) = Failed e"
  by (simp add: update_product_in_db_def update_try_block_def)

lemma update_touch_exception:
  "cursor_fault env = None \<Longrightarrow> select_fault env = None \<Longrightarrow> db (sku p) = Some r \<Longrightarrow>
     \<not> has_changes cfg r p \<Longrightarrow> touch_fault env = Some e \<Longrightarrow>
     fst (update_product_in_db cfg env db p) = Failed e"
  by (simp add: update_product_in_db_def update_try_block_def Let_def)

lemma update_write_exception:
  "cursor_fault env = None \<Longrightarrow> select_fault env = None \<Longrightarrow> db (sku p) = Some r \<Longrightarrow>
     has_changes cfg r p \<Longrightarrow> write_fault env = Some e \<Longrightarrow>
     fst (update_product_in_db cfg env db p) = Failed e"
  by (simp add: update_product_in_db_def update_try_block_def Let_def)

text \<open>
  What the touch changes: the timestamp of the row of the identifier, and nothing else
  in that row or in any other row.
\<close>

lemma touch_row_timestamp_only:
  "touch_row t s db s = map_option (\<lambda>r. r\<lparr>last_update := t\<rparr>) (db s)"
  "s' \<noteq> s \<Longrightarrow> touch_row t s db s' = db s'"
  by (simp_all add: touch_row_def split: option.splits)

lemma write_row_other_rows:
  "s' \<noteq> sku p \<Longrightarrow> fst (write_row cfg t p db) s' = db s'"
  by (simp add: write_row_def split: option.splits)

text \<open>
  C6. The writer fails with ``Product not found'' when the table has no row for the
  identifier; with no compared field different it touches the timestamp only (the row of
  the identifier gets the current time as its timestamp, its other columns and all other
  rows stay as they are) and reports no update; with a compared field different it
  reports an update exactly when the write affected a row, which then carries every
  mapped field of the answer, the timestamp and the update flag, and it fails with
  ``No rows updated'' when no row was affected; an exception raised by any statement, on
  either path, comes back as a failure with its message.
\<close>

theorem update_product_in_db_outcomes:
  "(no_fault env \<and> db (sku p) = None \<longrightarrow>
      update_product_in_db cfg env db p = (Failed ''Product not found'', db))
   \<and> (no_fault env \<and> db (sku p) = Some r \<and> \<not> has_changes cfg r p \<longrightarrow>
      update_product_in_db cfg env db p =
        (No_update, touch_row (now env) (sku p) (drift env db))
      \<and> snd (update_product_in_db cfg env db p) (sku p) =
          map_option (\<lambda>r0. r0\<lparr>last_update := now env\<rparr>) (drift env db (sku p))
      \<and> (\<forall>s'. s' \<noteq> sku p \<longrightarrow>
            snd (update_product_in_db cfg env db p) s' = drift env db s'))
   \<and> (no_fault env \<and> db (sku p) = Some r \<and> has_changes cfg r p \<longrightarrow>
      (fst (update_product_in_db cfg env db p) = Updated) =
        (0 < snd (write_row cfg (now env) p (drift env db)))
      \<and> (snd (write_row cfg (now env) p (drift env db)) = 0 \<longrightarrow>
           fst (update_product_in_db cfg env db p) = Failed ''No rows updated'')
      \<and> (fst (update_product_in_db cfg env db p) = Updated \<longrightarrow>
           (\<exists>r'. snd (update_product_in_db cfg env db p) (sku p) = Some r' \<and>
                 row_matches cfg (now env) p r'))
      \<and> (\<forall>s'. s' \<noteq> sku p \<longrightarrow>
            snd (update_product_in_db cfg env db p) s' = drift env db s'))
   \<and> (cursor_fault env = Some e \<longrightarrow> fst (update_product_in_db cfg env db p) = Failed e)
   \<and> (cursor_fault env = None \<and> select_fault env = Some e \<longrightarrow>
        fst (update_product_in_db cfg env db p) = Failed e)
   \<and> (cursor_fault env = None \<and> select_fault env = None \<and> db (sku p) = Some r \<and>
        \<not> has_changes cfg r p \<and> touch_fault env = Some e \<longrightarrow>
        fst (update_product_in_db cfg env db p) = Failed e)
   \<and> (cursor_fault env = None \<and> select_fault env = None \<and> db (sku p) = Some r \<and>
        has_changes cfg r p \<and> write_fault env = Some e \<longrightarrow>
        fst (update_product_in_db cfg env db p) = Failed e)"
proof -
  have c1: "no_fault env \<and> db (sku p) = None \<longrightarrow>
      update_product_in_db cfg env db p = (Failed ''Product not found'', db)"
    using update_not_found [of env db p cfg] by blast
  have c2: "no_fault env \<and> db (sku p) = Some r \<and> \<not> has_changes cfg r p \<longrightarrow>
      update_product_in_db cfg env db p =
        (No_update, touch_row (now env) (sku p) (drift env db))
      \<and> snd (update_product_in_db cfg env db p) (sku p) =
          map_option (\<lambda>r0. r0\<lparr>last_update := now env\<rparr>) (drift env db (sku p))
      \<and> (\<forall>s'. s' \<noteq> sku p \<longrightarrow>
            snd (update_product_in_db cfg env db p) s' = drift env db s')"
  proof (intro impI)
    assume a: "no_fault env \<and> db (sku p) = Some r \<and> \<not> has_changes cfg r p"
    have u: "update_product_in_db cfg env db p =
        (No_update, touch_row (now env) (sku p) (drift env db))"
      using a update_unchanged [of env db p r cfg] by blast
    have t1: "touch_row (now env) (sku p) (drift env db) (sku p) =
        map_option (\<lambda>r0. r0\<lparr>last_update := now env\<rparr>) (drift env db (sku p))"
      by (rule touch_row_timestamp_only(1))
    have t2: "\<forall>s'. s' \<noteq> sku p \<longrightarrow>
        touch_row (now env) (sku p) (drift env db) s' = drift env db s'"
      by (simp add: touch_row_timestamp_only(2))
    show "update_product_in_db cfg env db p =
        (No_update, touch_row (now env) (sku p) (drift env db))
      \<and> snd (update_product_in_db cfg env db p) (sku p) =
          map_option (\<lambda>r0. r0\<lparr>last_update := now env\<rparr>) (drift env db (sku p))
      \<and> (\<forall>s'. s' \<noteq> sku p \<longrightarrow>
            snd (update_product_in_db cfg env db p) s' = drift env db s')"
      using t1 t2 by (simp only: u snd_conv simp_thms)
  qed
  have c3: "no_fault env \<and> db (sku p) = Some r \<and> has_changes cfg r p \<longrightarrow>
      (fst (update_product_in_db cfg env db p) = Updated) =
        (0 < snd (write_row cfg (now env) p (drift env db)))
      \<and> (snd (write_row cfg (now env) p (drift env db)) = 0 \<longrightarrow>
           fst (update_product_in_db cfg env db p) = Failed ''No rows updated'')
      \<and> (fst (update_product_in_db cfg env db p) = Updated \<longrightarrow>
           (\<exists>r'. snd (update_product_in_db cfg env db p) (sku p) = Some r' \<and>
                 row_matches cfg (now env) p r'))
      \<and> (\<forall>s'. s' \<noteq> sku p \<longrightarrow>
            snd (update_product_in_db cfg env db p) s' = drift env db s')"
  proof (intro impI)
    assume a: "no_fault env \<and> db (sku p) = Some r \<and> has_changes cfg r p"
    have u: "update_product_in_db cfg env db p =
           (if drift env db (sku p) = None then Failed ''No rows updated'' else Updated,
            fst (write_row cfg (now env) p (drift env db)))"
      using a update_changed [of env db p r cfg] by blast
    have k: "snd (write_row cfg (now env) p (drift env db)) =
           (if drift env db (sku p) = None then 0 else 1)"
      by (rule write_row_rowcount)
    have o: "\<forall>s'. s' \<noteq> sku p \<longrightarrow>
            snd (update_product_in_db cfg env db p) s' = drift env db s'"
      by (simp add: u write_row_other_rows)
    have m: "(fst (update_product_in_db cfg env db p) = Updated) =
            (0 < snd (write_row cfg (now env) p (drift env db)))
        \<and> (snd (write_row cfg (now env) p (drift env db)) = 0 \<longrightarrow>
             fst (update_product_in_db cfg env db p) = Failed ''No rows updated'')
        \<and> (fst (update_product_in_db cfg env db p) = Updated \<longrightarrow>
             (\<exists>r'. snd (update_product_in_db cfg env db p) (sku p) = Some r' \<and>
                   row_matches cfg (now env) p r'))"
    proof (cases "drift env db (sku p) = None")
      case True
      then show ?thesis by (simp add: u k)
    next
      case False
      from write_row_matches [of "drift env db" p cfg "now env", OF False]
      show ?thesis using False by (simp add: u k)
    qed
    from m o show "(fst (update_product_in_db cfg env db p) = Updated) =
            (0 < snd (write_row cfg (now env) p (drift env db)))
        \<and> (snd (write_row cfg (now env) p (drift env db)) = 0 \<longrightarrow>
             fst (update_product_in_db cfg env db p) = Failed ''No rows updated'')
        \<and> (fst (update_product_in_db cfg env db p) = Updated \<longrightarrow>
             (\<exists>r'. snd (update_product_in_db cfg env db p) (sku p) = Some r' \<and>
                   row_matches cfg (now env) p r'))
        \<and> (\<forall>s'. s' \<noteq> sku p \<longrightarrow>
              snd (update_product_in_db cfg env db p) s' = drift env db s')"
      by blast
  qed
  have c4: "cursor_fault env = Some e \<longrightarrow>
      fst (update_product_in_db cfg env db p) = Failed e"
    using update_cursor_exception [of env e cfg db p] by blast
  have c5: "cursor_fault env = None \<and> select_fault env = Some e \<longrightarrow>
      fst (update_product_in_db cfg env db p) = Failed e"
    using update_select_exception [of env e cfg db p] by blast
  have c6: "cursor_fault env = None \<and> select_fault env = None \<and> db (sku p) = Some r \<and>
        \<not> has_changes cfg r p \<and> touch_fault env = Some e \<longrightarrow>
        fst (update_product_in_db cfg env db p) = Failed e"
    using update_touch_exception [of env db p r cfg e] by blast
  have c7: "cursor_fault env = None \<and> select_fault env = None \<and> db (sku p) = Some r \<and>
        has_changes cfg r p \<and> write_fault env = Some e \<longrightarrow>
        fst (update_product_in_db cfg env db p) = Failed e"
    using update_write_exception [of env db p r cfg e] by blast
  show ?thesis by (intro conjI c1 c2 c3 c4 c5 c6 c7)
qed

theorem update_product_in_db_outcomes_witness:
  "update_product_in_db test_config quiet_env Map.empty fresh_answer =
     (Failed ''Product not found'', Map.empty)
   \<and> update_product_in_db test_config quiet_env one_row_db stale_answer =
     (No_update, touch_row 100 ''6569319'' one_row_db)
   \<and> snd (update_product_in_db test_config quiet_env one_row_db stale_answer) ''6569319'' =
     Some (stale_row\<lparr>last_update := 100\<rparr>)
   \<and> snd (update_product_in_db test_config quiet_env one_row_db stale_answer) ''6583949'' =
     None
   \<and> fst (update_product_in_db test_config quiet_env one_row_db fresh_answer) = Updated
   \<and> fst (update_product_in_db test_config (quiet_env\<lparr>drift := (\<lambda>db. Map.empty)\<rparr>)
        one_row_db fresh_answer) = Failed ''No rows updated''
   \<and> fst (update_product_in_db test_config (quiet_env\<lparr>cursor_fault := Some ''connection closed''\<rparr>)
        one_row_db fresh_answer) = Failed ''connection closed''
   \<and> fst (update_product_in_db test_config (quiet_env\<lparr>write_fault := Some ''deadlock''\<rparr>)
        one_row_db fresh_answer) = Failed ''deadlock''"
proof -
  have nf: "no_fault quiet_env" "no_fault (quiet_env\<lparr>drift := (\<lambda>db. Map.empty)\<rparr>)"
    by (simp_all add: no_fault_def quiet_env_def)
  have ch: "has_changes test_config stale_row fresh_answer"
    "\<not> has_changes test_config stale_row stale_answer"
    by (simp_all add: has_changes_def stale_row_def fresh_answer_def stale_answer_def
          test_config_def)
  have rows: "one_row_db (sku fresh_answer) = Some stale_row"
    "one_row_db (sku stale_answer) = Some stale_row"
    "Map.empty (sku fresh_answer) = (None :: db_row option)"
    by (simp_all add: one_row_db_def fresh_answer_def stale_answer_def)
  have cnt: "snd (write_row test_config 100 fresh_answer one_row_db) = 1"
    "snd (write_row test_config 100 fresh_answer Map.empty) = 0"
    by (simp_all add: write_row_def one_row_db_def fresh_answer_def)
  have q: "now quiet_env = 100" "drift quiet_env one_row_db = one_row_db"
    "sku stale_answer = ''6569319''"
    by (simp_all add: quiet_env_def stale_answer_def)
  have other: "''6583949'' \<noteq> sku stale_answer" "one_row_db ''6583949'' = None"
    by (simp_all add: stale_answer_def one_row_db_def)
  note t1 = update_product_in_db_outcomes
    [of quiet_env Map.empty fresh_answer test_config stale_row "''x''"]
  note t2 = update_product_in_db_outcomes
    [of quiet_env one_row_db stale_answer test_config stale_row "''x''"]
  note t3 = update_product_in_db_outcomes
    [of quiet_env one_row_db fresh_answer test_config stale_row "''x''"]
  note t4 = update_product_in_db_outcomes
    [of "quiet_env\<lparr>drift := (\<lambda>db. Map.empty)\<rparr>" one_row_db fresh_answer test_config
        stale_row "''x''"]
  note t5 = update_product_in_db_outcomes
    [of "quiet_env\<lparr>cursor_fault := Some ''connection closed''\<rparr>" one_row_db fresh_answer
        test_config stale_row "''connection closed''"]
  note t6 = update_product_in_db_outcomes
    [of "quiet_env\<lparr>write_fault := Some ''deadlock''\<rparr>" one_row_db fresh_answer
        test_config stale_row "''deadlock''"]
  have "update_product_in_db test_config quiet_env Map.empty fresh_answer =
     (Failed ''Product not found'', Map.empty)"
    using t1 nf rows by simp
  moreover have unchanged:
    "update_product_in_db test_config quiet_env one_row_db stale_answer =
       (No_update, touch_row 100 ''6569319'' one_row_db)
     \<and> snd (update_product_in_db test_config quiet_env one_row_db stale_answer) ''6569319'' =
       Some (stale_row\<lparr>last_update := 100\<rparr>)
     \<and> snd (update_product_in_db test_config quiet_env one_row_db stale_answer) ''6583949'' =
       None"
  proof -
    from t2 nf(1) rows(2) ch(2)
    have a: "update_product_in_db test_config quiet_env one_row_db stale_answer =
          (No_update, touch_row (now quiet_env) (sku stale_answer)
             (drift quiet_env one_row_db))"
      and b: "snd (update_product_in_db test_config quiet_env one_row_db stale_answer)
            (sku stale_answer) =
          map_option (\<lambda>r0. r0\<lparr>last_update := now quiet_env\<rparr>)
            (drift quiet_env one_row_db (sku stale_answer))"
      and c: "\<forall>s'. s' \<noteq> sku stale_answer \<longrightarrow>
          snd (update_product_in_db test_config quiet_env one_row_db stale_answer) s' =
          drift quiet_env one_row_db s'"
      by blast+
    from c other have c': "snd (update_product_in_db test_config quiet_env one_row_db
          stale_answer) ''6583949'' = None"
      by (simp add: q)
    from b rows(2) have b': "snd (update_product_in_db test_config quiet_env one_row_db
          stale_answer) ''6569319'' = Some (stale_row\<lparr>last_update := 100\<rparr>)"
      by (simp add: q)
    from a have a': "update_product_in_db test_config quiet_env one_row_db stale_answer =
       (No_update, touch_row 100 ''6569319'' one_row_db)"
      by (simp only: q)
    from a' b' c' show ?thesis by blast
  qed
  moreover have "fst (update_product_in_db test_config quiet_env one_row_db fresh_answer) = Updated"
    using t3 nf rows ch cnt by (simp add: quiet_env_def)
  moreover have "fst (update_product_in_db test_config (quiet_env\<lparr>drift := (\<lambda>db. Map.empty)\<rparr>)
        one_row_db fresh_answer) = Failed ''No rows updated''"
    using t4 nf rows ch cnt by (simp add: quiet_env_def)
  moreover have "fst (update_product_in_db test_config
        (quiet_env\<lparr>cursor_fault := Some ''connection closed''\<rparr>)
        one_row_db fresh_answer) = Failed ''connection closed''"
    using t5 by simp
  moreover have "fst (update_product_in_db test_config (quiet_env\<lparr>write_fault := Some ''deadlock''\<rparr>)
        one_row_db fresh_answer) = Failed ''deadlock''"
    using t6 rows ch by (simp add: quiet_env_def)
  ultimately show ?thesis by blast
qed

section \<open>Properties of the batch runner\<close>

lemma collect_Inr: "collect (map (\<lambda>x. Inr (f x)) xs) = Inr (map f xs)"
  by (induction xs) simp_all

lemma fetch_window_Inr:
  "fetch_window cfg w window =
     Inr (map (\<lambda>(i, s). (i, returned (retry_loop cfg s (remote w i) 3 1 None)))
              (as_completed w window))"
proof -
  have "(\<lambda>(i, s). case fetch_product_data_with_retry cfg s (remote w i) 3 of
                      Inl e \<Rightarrow> Inl e | Inr r \<Rightarrow> Inr (i, returned r)) =
        (\<lambda>x. Inr ((\<lambda>(i, s). (i, returned (retry_loop cfg s (remote w i) 3 1 None))) x))"
    by (auto simp: fetch_product_data_with_retry_def fun_eq_iff)
  then show ?thesis
    unfolding fetch_window_def by (simp only: collect_Inr)
qed

lemma write_all_positions: "map fst (fst (write_all cfg w db ps)) = map fst ps"
proof (induction ps arbitrary: db)
  case Nil
  show ?case by simp
next
  case (Cons a ps)
  obtain i p where a: "a = (i, p)" by (cases a)
  obtain res db1 where u: "update_product_in_db cfg (db_envs w i) db p = (res, db1)"
    by (cases "update_product_in_db cfg (db_envs w i) db p")
  obtain rs db2 where r: "write_all cfg w db1 ps = (rs, db2)"
    by (cases "write_all cfg w db1 ps")
  from Cons.IH [of db1] r have "map fst rs = map fst ps" by simp
  then show ?case by (simp add: a u r)
qed

lemma window_positions:
  assumes "fetch_window cfg w window = Inr ps"
  shows "mset (map fst (fst (write_all cfg w db ps))) = mset (map fst window)"
proof -
  from assms have "map fst ps = map fst (as_completed w window)"
    unfolding fetch_window_Inr by (auto simp: case_prod_beta comp_def)
  then show ?thesis
    by (simp add: write_all_positions as_completed_def)
qed

lemma concurrent_batches_positions:
  "0 < c \<Longrightarrow> \<exists>rs db'. concurrent_batches cfg w c batch j db = Inr (rs, db') \<and>
       mset (map fst rs) = mset (map fst (drop j batch))"
proof (induction cfg w c batch j db rule: concurrent_batches.induct)
  case (1 cfg w c batch j db)
  show ?case
  proof (cases "j < length batch")
    case False
    then show ?thesis by (subst concurrent_batches.simps) simp
  next
    case True
    let ?window = "take c (drop j batch)"
    obtain ps where ps: "fetch_window cfg w ?window = Inr ps"
      by (simp add: fetch_window_Inr)
    from "1.IH" [OF _ ps] True "1.prems"
    obtain rs db' where rec: "concurrent_batches cfg w c batch (j + c)
          (snd (write_all cfg w db ps)) = Inr (rs, db')"
      and rs: "mset (map fst rs) = mset (map fst (drop (j + c) batch))"
      by auto
    have split: "drop j batch = ?window @ drop (j + c) batch"
      by (simp add: add.commute [of j c] flip: drop_drop)
    have "concurrent_batches cfg w c batch j db =
            Inr (fst (write_all cfg w db ps) @ rs, db')"
      using True "1.prems" ps rec by (subst concurrent_batches.simps) simp
    moreover have "mset (map fst (fst (write_all cfg w db ps) @ rs)) =
            mset (map fst (drop j batch))"
    proof -
      have "mset (map fst (fst (write_all cfg w db ps) @ rs)) =
            mset (map fst (?window @ drop (j + c) batch))"
        by (simp only: map_append mset_append window_positions [OF ps] rs)
      with split show ?thesis by simp
    qed
    ultimately show ?thesis by blast
  qed
qed

lemma window_loop_positions:
  assumes "0 < max_concurrent"
  shows "\<exists>rs db'. window_loop cfg w max_concurrent batch db = Inr (rs, db') \<and>
       mset (map fst rs) = mset (map fst batch)"
  using assms concurrent_batches_positions [of "nat max_concurrent" cfg w batch 0 db]
  by (simp add: window_loop_def)

lemma batches_positions:
  "0 < b \<Longrightarrow> 0 < max_concurrent \<Longrightarrow>
   \<exists>rs db'. batches cfg w b max_concurrent skus i db = Inr (rs, db') \<and>
     length rs = length skus - i \<and>
     (\<forall>k. mset (map fst (take b (drop (k * b) rs))) =
          mset (map fst (take b (drop (i + k * b) skus))))"
proof (induction cfg w b max_concurrent skus i db rule: batches.induct)
  case (1 cfg w b max_concurrent skus i db)
  show ?case
  proof (cases "i < length skus")
    case False
    then show ?thesis by (subst batches.simps) simp
  next
    case True
    let ?g = "take b (drop i skus)"
    from window_loop_positions [OF "1.prems"(2), of cfg w ?g db]
    obtain rs1 db1 where w1: "window_loop cfg w max_concurrent ?g db = Inr (rs1, db1)"
      and m1: "mset (map fst rs1) = mset (map fst ?g)"
      by blast
    from "1.IH" [OF _ w1 refl] True "1.prems"
    obtain rs2 db2 where
      rec: "batches cfg w b max_concurrent skus (i + b) db1 = Inr (rs2, db2)"
      and len2: "length rs2 = length skus - (i + b)"
      and grp2: "\<forall>k. mset (map fst (take b (drop (k * b) rs2))) =
          mset (map fst (take b (drop (i + b + k * b) skus)))"
      by auto
    have eq: "batches cfg w b max_concurrent skus i db = Inr (rs1 @ rs2, db2)"
      using True "1.prems" w1 rec by (subst batches.simps) simp
    have len1: "length rs1 = length ?g"
      using m1 by (metis length_map size_mset)
    have len: "length (rs1 @ rs2) = length skus - i"
      using len1 len2 True by simp
    have grp: "mset (map fst (take b (drop (k * b) (rs1 @ rs2)))) =
          mset (map fst (take b (drop (i + k * b) skus)))" for k
    proof (cases k)
      case 0
      show ?thesis
      proof (cases "length rs1 = b")
        case True
        then show ?thesis using 0 m1 by simp
      next
        case False
        with len1 have short: "length skus - i < b" by simp
        then have "rs2 = []" using len2 by simp
        then show ?thesis using 0 m1 len1 short by simp
      qed
    next
      case (Suc k')
      show ?thesis
      proof (cases "length rs1 = b")
        case True
        then have d: "drop (k * b) (rs1 @ rs2) = drop (k' * b) rs2"
          using Suc by simp
        have e: "i + k * b = i + b + k' * b" using Suc by simp
        from grp2 have "mset (map fst (take b (drop (k' * b) rs2))) =
            mset (map fst (take b (drop (i + b + k' * b) skus)))" by blast
        then show ?thesis by (simp only: d e)
      next
        case False
        with len1 have short: "length skus - i < b" by simp
        then have "rs2 = []" using len2 by simp
        moreover have "length rs1 \<le> k * b" using short len1 Suc by simp
        moreover have "length skus \<le> i + k * b" using short Suc by simp
        ultimately show ?thesis by simp
      qed
    qed
    from eq len grp show ?thesis by blast
  qed
qed

lemma enumerate_positions:
  "map fst (take b (drop n (enumerate 0 xs))) = take b (drop n [0..<length xs])"
proof -
  have "map fst (take b (drop n (enumerate 0 xs))) =
        take b (drop n (map fst (enumerate 0 xs)))"
    by (simp only: take_map drop_map)
  also have "map fst (enumerate 0 xs) = [0..<length xs]"
    by (simp add: map_fst_enumerate)
  finally show ?thesis .
qed

text \<open>
  C9. For a positive batch size and a positive concurrency limit, the run of the batch
  runner over N identifiers ends with a report whose total and whose list of results
  both count N, whatever the two sizes, the remote service and the database do; and the
  results of each group of the input come out together, group after group: the entries
  at the positions of the k-th group are those of the identifiers of the k-th group, in
  their order of completion.
\<close>

theorem process_products_total:
  assumes "0 < batch_size" and "0 < max_concurrent"
  shows "\<exists>rep db' entries.
           process_products cfg w db skus batch_size max_concurrent = Inr (rep, db')
         \<and> process_entries cfg w db skus batch_size max_concurrent = Inr (entries, db')
         \<and> results rep = map snd entries
         \<and> total_processed rep = length skus
         \<and> length (results rep) = length skus
         \<and> (\<forall>k. mset (map fst (take (nat batch_size) (drop (k * nat batch_size) entries))) =
                mset (take (nat batch_size) (drop (k * nat batch_size) [0..<length skus])))"
proof -
  let ?b = "nat batch_size"
  have b: "0 < ?b" using assms(1) by simp
  from batches_positions [OF b assms(2), of cfg w "enumerate 0 skus" 0 db]
  obtain entries db' where
    run: "batches cfg w ?b max_concurrent (enumerate 0 skus) 0 db = Inr (entries, db')"
    and len: "length entries = length skus"
    and grp: "\<forall>k. mset (map fst (take ?b (drop (k * ?b) entries))) =
          mset (map fst (take ?b (drop (k * ?b) (enumerate 0 skus))))"
    by auto
  have pe: "process_entries cfg w db skus batch_size max_concurrent = Inr (entries, db')"
    using assms(1) run by (simp add: process_entries_def)
  have grp': "\<forall>k. mset (map fst (take ?b (drop (k * ?b) entries))) =
          mset (take ?b (drop (k * ?b) [0..<length skus]))"
    using grp unfolding enumerate_positions .
  show ?thesis
    using pe len grp' by (simp add: process_products_def Let_def)
qed

theorem process_products_total_witness:
  "(0::int) < 4 \<and> (0::int) < 3 \<and>
   (\<exists>rep db' entries.
      process_products test_config calm_world Map.empty test_skus 4 3 = Inr (rep, db')
      \<and> process_entries test_config calm_world Map.empty test_skus 4 3 = Inr (entries, db')
      \<and> results rep = map snd entries
      \<and> total_processed rep = 8
      \<and> length (results rep) = 8
      \<and> mset (map fst (take 4 entries)) = mset [0, 1, 2, 3]
      \<and> mset (map fst (take 4 (drop 4 entries))) = mset [4, 5, 6, 7])"
proof -
  have l: "length test_skus = 8" by (simp add: test_skus_def)
  have u: "[0..<8] = [0, 1, 2, 3, 4, 5, 6, 7::nat]" by (simp add: upt_rec)
  from process_products_total [of 4 3 test_config calm_world Map.empty test_skus]
  obtain rep db' entries where
    a: "process_products test_config calm_world Map.empty test_skus 4 3 = Inr (rep, db')"
      "process_entries test_config calm_world Map.empty test_skus 4 3 = Inr (entries, db')"
      "results rep = map snd entries"
      "total_processed rep = length test_skus"
      "length (results rep) = length test_skus"
    and g: "\<forall>k. mset (map fst (take (nat 4) (drop (k * nat 4) entries))) =
                mset (take (nat 4) (drop (k * nat 4) [0..<length test_skus]))"
    by auto
  from g [rule_format, of 0] have g0: "mset (map fst (take 4 entries)) = mset [0, 1, 2, 3]"
    by (simp add: l u)
  from g [rule_format, of 1]
  have g1: "mset (map fst (take 4 (drop 4 entries))) = mset [4, 5, 6, 7]"
    by (simp add: l u)
  from a g0 g1 show ?thesis by (simp add: l)
qed

section \<open>Properties of phase 2\<close>

lemma batch_loop_length:
  "length (fst (batch_loop env data bs n b s)) = n"
  by (induction n arbitrary: b s) (simp_all add: Let_def)

lemma batch_loop_success:
  "snd (batch_loop env data bs n b s) =
     (s \<and> list_all keeps_success (fst (batch_loop env data bs n b s)))"
  by (induction n arbitrary: b s) (auto simp: Let_def)

lemma process_in_batches_all_slices:
  assumes "process_in_batches env tbl data bs = Inr r" and "access_token env \<noteq> None"
    and "data \<noteq> []"
  shows "length (slice_outcomes r) = (length data + bs - 1) div bs
       \<and> run_success r = list_all keeps_success (slice_outcomes r)"
  using assms batch_loop_success [of env data bs "(length data + bs - 1) div bs" 1 True]
  by (auto simp: process_in_batches_def Let_def batch_loop_length split: if_splits)

lemma process_in_batches_reset:
  assumes "process_in_batches env tbl data bs = Inr r" and "table_after r \<noteq> tbl"
  shows "run_success r"
  using assms
  by (auto simp: process_in_batches_def Let_def split: if_splits option.splits)

text \<open>
  C5. One slice whose feed the marketplace reports as \<open>FATAL\<close>, with a result document:
  the poll hands the status back as it does for \<open>DONE\<close>, the driver only looks for the
  result document, the run counts as a success and the update flag of the source rows is
  reset.
\<close>

theorem fatal_feed_resets_flag:
  "process_in_batches fatal_env pending_table [(''SEVC-1'', Some 4, Some 20)] 9990 =
     Inr \<lparr>run_success = True,
          slice_outcomes = [Polled (Some \<lparr>processingStatus = Some ''FATAL'',
                                          resultFeedDocumentId = Some ''doc-1''\<rparr>)],
          table_after = [\<lparr>sku2 = ''SEVC-1'', p2_handling_time_amz = Some 4,
                           p2_quantity = Some 20, p2_atualizado = 0\<rparr>]\<rparr>
   \<and> main_phase2 fatal_env pending_table =
       process_in_batches fatal_env pending_table [(''SEVC-1'', Some 4, Some 20)] 9990"
  by code_simp




end
